theory Spec2Isabelle
  imports Complex_Main "HOL-Library.AList"
begin

section \<open>Data model of \<open>iopaint/model_manager.py\<close>\<close>

text \<open>
  The manager of \<open>src/iopaint/model_manager.py\<close> holds one loaded model, the name of its
  descriptor and the ControlNet toggle state. Its methods mutate \<open>self\<close> and raise; here
  every method takes the manager and returns a result together with the manager it leaves
  behind, so that the state an exception leaves is part of the model.
\<close>

subsection \<open>Descriptors and requests\<close>

text \<open>
  \<open>ModelType\<close>, \<open>ModelInfo\<close> and \<open>InpaintRequest\<close> are declared in \<open>iopaint/schema.py\<close>; the
  manager reads the members listed here.
\<close>

datatype ModelType =
    INPAINT
  | DIFFUSERS_SD
  | DIFFUSERS_SD_INPAINT
  | DIFFUSERS_SDXL
  | DIFFUSERS_SDXL_INPAINT
  | DIFFUSERS_OTHER

record ModelInfo =
  info_name :: string
  model_type :: ModelType
  support_controlnet :: bool
  controlnets :: "string list"
  support_freeu :: bool
  support_lcm_lora :: bool

record FreeUConfig =
  s1 :: real
  s2 :: real
  b1 :: real
  b2 :: real

record InpaintRequest =
  req_enable_controlnet :: bool
  req_controlnet_method :: "string option"
  sd_freeu :: bool
  sd_freeu_config :: FreeUConfig
  sd_lcm_lora :: bool

type_synonym ndarray = "int list"

subsection \<open>Errors\<close>

text \<open>
  \<open>NotImplementedError\<close> is what \<open>init_model\<close> raises for an unsupported model (the
  argument is the model name of its message); \<open>KeyError\<close>, \<open>IndexError\<close> and
  \<open>AttributeError\<close> are what Python raises on a missing dictionary key, on \<open>xs[0]\<close> of an
  empty list and on a deleted attribute; \<open>TypeError\<close> is what it raises when a call gets
  the same keyword argument twice; \<open>RuntimeError\<close> stands for any exception of an
  external collaborator.
\<close>

datatype error =
    NotImplementedError string
  | KeyError string
  | IndexError
  | AttributeError string
  | TypeError string
  | RuntimeError string

subsection \<open>Keyword arguments\<close>

text \<open>
  \<open>kwargs\<close> is the free-form options dictionary; \<open>None\<close> in an optional field is an
  absent key, and \<open>kw_rest\<close> holds the keys that neither the manager nor the signature of
  \<open>init_model\<close> names. \<open>BuildKwargs\<close> is the dictionary \<open>init_model\<close> hands to a model class: the
  caller's options with \<open>model_info\<close>, \<open>enable_controlnet\<close> and \<open>controlnet_method\<close>
  overwritten.
\<close>

record PipeComponents =
  pc_vae :: nat
  pc_text_encoder :: nat
  pc_unet :: nat
  pc_text_encoder_2 :: "nat option"

record Kwargs =
  kw_enable_controlnet :: "bool option"
  kw_controlnet_method :: "string option"
  kw_pipe_components :: "PipeComponents option"
  kw_rest :: "(string \<times> string) list"

record BuildKwargs =
  bk_rest :: "(string \<times> string) list"
  bk_pipe_components :: "PipeComponents option"
  bk_model_info :: ModelInfo
  bk_enable_controlnet :: bool
  bk_controlnet_method :: "string option"

subsection \<open>The loaded model\<close>

text \<open>
  The classes \<open>ControlNet\<close>, \<open>SD\<close>, \<open>SDXL\<close> and the registry \<open>models\<close> live in
  \<open>iopaint/model\<close>; a loaded model wraps a diffusers pipeline (\<open>self.model.model\<close>).
\<close>

datatype BackendKind = ControlNet | Registered string | SD | SDXL

text \<open>
  Modelled from the spec: the loaded model object (the Backend), whose classes are not in
  \<open>src/\<close>. The record keeps what the manager reads from it (\<open>device\<close>, the shared
  sub-components \<open>vae\<close>, \<open>text_encoder\<close>, \<open>unet\<close>, \<open>text_encoder_2\<close>, \<open>lcm_lora_id\<close>, the
  adapter list) and the state its contract names: the auxiliary method in use, the tuning
  parameters in effect (\<open>None\<close> is the untuned baseline) and whether the adapter is enabled.
\<close>

record Backend =
  kind :: BackendKind
  backend_device :: string
  vae :: nat
  text_encoder :: nat
  unet :: nat
  text_encoder_2 :: "nat option"
  lcm_lora_id :: string
  backend_controlnet_method :: "string option"
  freeu :: "FreeUConfig option"
  list_adapters :: "string list"
  lora_enabled :: bool

subsection \<open>Calls to external collaborators\<close>

text \<open>
  Every call the manager makes on a collaborator that has an effect is recorded, in order,
  in the field \<open>trace\<close> of the manager: it is how a rebuild, a load or a delegation is
  observed.
\<close>

datatype event =
    TorchGc
  | Construct BackendKind string BuildKwargs
  | SwitchControlnetMethod "string option"
  | EnableFreeu FreeUConfig
  | DisableFreeu
  | LoadLoraWeights string bool
  | EnableLora
  | DisableLora
  | ModelCall ndarray ndarray InpaintRequest

text \<open>
  The collaborators themselves are parameters: the catalog scan
  (\<open>iopaint.download.scan_models\<close>), the registry \<open>models\<close> (its keys), the model classes
  (\<open>construct\<close>, which may raise), \<open>switch_mps_device\<close>, \<open>is_local_files_only\<close>, the fetch
  behind \<open>load_lora_weights\<close> (which may raise), the model's own \<open>__call__\<close> (which may
  raise) and numpy's \<open>astype(np.uint8)\<close>.
\<close>

record Env =
  download_scan_models :: "ModelInfo list"
  models :: "string list"
  construct :: "BackendKind \<Rightarrow> string \<Rightarrow> BuildKwargs \<Rightarrow> error + Backend"
  switch_mps_device :: "string \<Rightarrow> string \<Rightarrow> string"
  is_local_files_only :: bool
  fetch_lora_weights :: "string \<Rightarrow> bool \<Rightarrow> error option"
  model_call :: "Backend \<Rightarrow> ndarray \<Rightarrow> ndarray \<Rightarrow> InpaintRequest \<Rightarrow> error + ndarray"
  astype_uint8 :: "ndarray \<Rightarrow> ndarray"

subsection \<open>The manager\<close>

text \<open>
  \<open>model = None\<close> is the state after \<open>del self.model\<close>: the attribute does not exist.
  \<open>available_models\<close> is the dictionary in insertion order.
\<close>

record ModelManager =
  name :: string
  device :: string
  kwargs :: Kwargs
  available_models :: "(string \<times> ModelInfo) list"
  enable_controlnet :: bool
  controlnet_method :: "string option"
  model :: "Backend option"
  trace :: "event list"

section \<open>Operations\<close>

subsection \<open>Python helpers\<close>

definition truthy :: "string option \<Rightarrow> bool" where
  "truthy v = (case v of None \<Rightarrow> False | Some s \<Rightarrow> s \<noteq> [])"

definition not_in :: "string option \<Rightarrow> string list \<Rightarrow> bool" where
  "not_in v xs = (case v of None \<Rightarrow> True | Some s \<Rightarrow> s \<notin> set xs)"

definition emit :: "event \<Rightarrow> ModelManager \<Rightarrow> ModelManager" where
  "emit ev self = self\<lparr>trace := trace self @ [ev]\<rparr>"

subsection \<open>\<open>scan_models\<close> (lines 88-91)\<close>

definition scan_models :: "Env \<Rightarrow> ModelManager \<Rightarrow> ModelInfo list \<times> ModelManager" where
  "scan_models env self =
     (let available = download_scan_models env
      in (available,
          self\<lparr>available_models :=
                 fold (\<lambda>it d. AList.update (info_name it) it d) available []\<rparr>))"

subsection \<open>\<open>init_model\<close> (lines 37-69)\<close>

text \<open>Lines 45-50: the keyword dictionary handed to the model class.\<close>

definition build_kwargs :: "Kwargs \<Rightarrow> ModelInfo \<Rightarrow> ModelManager \<Rightarrow> BuildKwargs" where
  "build_kwargs kw model_info self =
     \<lparr>bk_rest = kw_rest kw,
      bk_pipe_components = kw_pipe_components kw,
      bk_model_info = model_info,
      bk_enable_controlnet = enable_controlnet self,
      bk_controlnet_method = controlnet_method self\<rparr>"

definition init_model ::
  "Env \<Rightarrow> string \<Rightarrow> string \<Rightarrow> Kwargs \<Rightarrow> ModelManager \<Rightarrow> (error + Backend) \<times> ModelManager" where
  "init_model env name' device' kw self =
     (case map_of (available_models self) name' of
        None \<Rightarrow> (Inl (NotImplementedError name'), self)
      | Some model_info \<Rightarrow>
          (let kwargs' = build_kwargs kw model_info self
           in if support_controlnet model_info \<and> enable_controlnet self then
                (construct env ControlNet device' kwargs',
                 emit (Construct ControlNet device' kwargs') self)
              else if info_name model_info \<in> set (models env) then
                (if name' \<in> set (models env) then
                   (construct env (Registered name') device' kwargs',
                    emit (Construct (Registered name') device' kwargs') self)
                 else (Inl (KeyError name'), self))
              else if model_type model_info \<in> {DIFFUSERS_SD_INPAINT, DIFFUSERS_SD} then
                (construct env SD device' kwargs', emit (Construct SD device' kwargs') self)
              else if model_type model_info \<in> {DIFFUSERS_SDXL_INPAINT, DIFFUSERS_SDXL} then
                (construct env SDXL device' kwargs', emit (Construct SDXL device' kwargs') self)
              else (Inl (NotImplementedError name'), self)))"

subsection \<open>\<open>__init__\<close> (lines 15-31)\<close>

definition ModelManager_init :: "Env \<Rightarrow> string \<Rightarrow> string \<Rightarrow> Kwargs \<Rightarrow> error + ModelManager" where
  "ModelManager_init env name' device' kw =
     (let self0 = \<lparr>name = name', device = device', kwargs = kw, available_models = [],
                   enable_controlnet = False, controlnet_method = None, model = None,
                   trace = []\<rparr>;
          self1 = snd (scan_models env self0);
          self2 = self1\<lparr>enable_controlnet :=
                          (case kw_enable_controlnet kw of None \<Rightarrow> False | Some b \<Rightarrow> b)\<rparr>
      in case (if kw_controlnet_method kw = None then
                 (case map_of (available_models self2) name' of
                    None \<Rightarrow> Inr None
                  | Some info \<Rightarrow>
                      if support_controlnet info then
                        (case controlnets info of
                           [] \<Rightarrow> Inl IndexError
                         | c # _ \<Rightarrow> Inr (Some c))
                      else Inr None)
               else Inr (kw_controlnet_method kw)) of
           Inl e \<Rightarrow> Inl e
         | Inr controlnet_method' \<Rightarrow>
             (let self3 = self2\<lparr>controlnet_method := controlnet_method'\<rparr>
              in case init_model env name' device' kw self3 of
                   (Inl e, _) \<Rightarrow> Inl e
                 | (Inr b, self4) \<Rightarrow> Inr (self4\<lparr>model := Some b\<rparr>)))"

subsection \<open>\<open>switch\<close> (lines 93-122)\<close>

text \<open>The body of the \<open>try\<close> block, lines 109-114.\<close>

definition switch_try :: "Env \<Rightarrow> string \<Rightarrow> ModelManager \<Rightarrow> (error + unit) \<times> ModelManager" where
  "switch_try env new_name self =
     (case model self of
        None \<Rightarrow> (Inl (AttributeError ''model''), self)
      | Some _ \<Rightarrow>
          (let self1 = emit TorchGc (self\<lparr>model := None\<rparr>)
           in case init_model env new_name (switch_mps_device env new_name (device self1))
                     (kwargs self1) self1 of
                (Inl e, self2) \<Rightarrow> (Inl e, self2)
              | (Inr b, self2) \<Rightarrow> (Inr (), self2\<lparr>model := Some b\<rparr>)))"

text \<open>The \<open>except\<close> handler, lines 116-122, entered with the exception \<open>e\<close>.\<close>

definition switch_rollback ::
  "Env \<Rightarrow> string \<Rightarrow> string option \<Rightarrow> error \<Rightarrow> ModelManager \<Rightarrow> (error + unit) \<times> ModelManager" where
  "switch_rollback env old_name old_controlnet_method e self =
     (let self1 = self\<lparr>name := old_name, controlnet_method := old_controlnet_method\<rparr>
      in case init_model env old_name (switch_mps_device env old_name (device self1))
                (kwargs self1) self1 of
           (Inl e', self2) \<Rightarrow> (Inl e', self2)
         | (Inr b, self2) \<Rightarrow> (Inl e, self2\<lparr>model := Some b\<rparr>))"

text \<open>Lines 101-106: the method is reset when the new descriptor does not list it.\<close>

definition switch_reset_method :: "ModelInfo \<Rightarrow> ModelManager \<Rightarrow> error + ModelManager" where
  "switch_reset_method info self =
     (if support_controlnet info \<and> not_in (controlnet_method self) (controlnets info) then
        (case controlnets info of
           [] \<Rightarrow> Inl IndexError
         | c # _ \<Rightarrow> Inr (self\<lparr>controlnet_method := Some c\<rparr>))
      else Inr self)"

definition switch :: "Env \<Rightarrow> string \<Rightarrow> ModelManager \<Rightarrow> (error + unit) \<times> ModelManager" where
  "switch env new_name self =
     (if new_name = name self then (Inr (), self)
      else
        (let old_name = name self;
             old_controlnet_method = controlnet_method self;
             self1 = self\<lparr>name := new_name\<rparr>
         in case map_of (available_models self1) new_name of
              None \<Rightarrow> (Inl (KeyError new_name), self1)
            | Some info \<Rightarrow>
                (case switch_reset_method info self1 of
                   Inl e \<Rightarrow> (Inl e, self1)
                 | Inr self2 \<Rightarrow>
                     (case switch_try env new_name self2 of
                        (Inr u, self3) \<Rightarrow> (Inr u, self3)
                      | (Inl e, self3) \<Rightarrow>
                          switch_rollback env old_name old_controlnet_method e self3))))"

subsection \<open>The model's own methods\<close>

text \<open>
  The methods of the loaded model and of its pipeline that the manager calls are not in
  \<open>src/\<close>; each is modelled from the Backend contract of the specification. The fetch
  behind \<open>load_lora_weights\<close> is the parameter \<open>fetch_lora_weights\<close> of the environment.
\<close>

text \<open>
  Modelled from the spec: \<open>self.model.switch_controlnet_method(method)\<close>, the cheap method
  switch; the model records the method it was given.
\<close>

definition model_switch_controlnet_method :: "string option \<Rightarrow> Backend \<Rightarrow> Backend" where
  "model_switch_controlnet_method method b = b\<lparr>backend_controlnet_method := method\<rparr>"

text \<open>
  Modelled from the spec: \<open>self.model.model.enable_freeu(s1, s2, b1, b2)\<close>; the four
  scalars are put in effect.
\<close>

definition enable_freeu :: "FreeUConfig \<Rightarrow> Backend \<Rightarrow> Backend" where
  "enable_freeu c b = b\<lparr>freeu := Some \<lparr>s1 = s1 c, s2 = s2 c, b1 = b1 c, b2 = b2 c\<rparr>\<rparr>"

text \<open>
  Modelled from the spec: \<open>self.model.model.disable_freeu()\<close>; the model is reset to its
  untuned baseline.
\<close>

definition disable_freeu :: "Backend \<Rightarrow> Backend" where
  "disable_freeu b = b\<lparr>freeu := None\<rparr>"

text \<open>
  Modelled from the spec: \<open>self.model.model.get_list_adapters()\<close>, the adapter-state query;
  the result is empty exactly when no adapter is loaded.
\<close>

definition get_list_adapters :: "Backend \<Rightarrow> string list" where
  "get_list_adapters b = list_adapters b"

text \<open>
  Modelled from the spec: \<open>self.model.model.load_lora_weights(lora_id, ...)\<close>; the fetch may
  raise, and a successful load registers the adapter and leaves it enabled.
\<close>

definition load_lora_weights :: "Env \<Rightarrow> string \<Rightarrow> bool \<Rightarrow> Backend \<Rightarrow> error + Backend" where
  "load_lora_weights env lora_id local_files_only b =
     (case fetch_lora_weights env lora_id local_files_only of
        Some e \<Rightarrow> Inl e
      | None \<Rightarrow> Inr (b\<lparr>list_adapters := list_adapters b @ [lora_id], lora_enabled := True\<rparr>))"

text \<open>
  Modelled from the spec: \<open>self.model.model.enable_lora()\<close>, the cheap enable of a loaded
  adapter.
\<close>

definition enable_lora :: "Backend \<Rightarrow> Backend" where
  "enable_lora b = b\<lparr>lora_enabled := True\<rparr>"

text \<open>
  Modelled from the spec: \<open>self.model.model.disable_lora()\<close>, the cheap disable of a loaded
  adapter.
\<close>

definition disable_lora :: "Backend \<Rightarrow> Backend" where
  "disable_lora b = b\<lparr>lora_enabled := False\<rparr>"

subsection \<open>\<open>switch_controlnet_method\<close> (lines 124-160)\<close>

text \<open>
  The rebuild of lines 151-156 passes \<open>pipe_components=\<close> next to \<open>**self.kwargs\<close>: when the
  options already hold the key \<open>pipe_components\<close> the call raises \<open>TypeError\<close> before
  \<open>init_model\<close> runs, with the flag and the method already overwritten and the old model
  still held.
\<close>

definition switch_controlnet_method ::
  "Env \<Rightarrow> InpaintRequest \<Rightarrow> ModelManager \<Rightarrow> (error + unit) \<times> ModelManager" where
  "switch_controlnet_method env config self =
     (case map_of (available_models self) (name self) of
        None \<Rightarrow> (Inl (KeyError (name self)), self)
      | Some info \<Rightarrow>
          if \<not> support_controlnet info then (Inr (), self)
          else if enable_controlnet self
                  \<and> truthy (req_controlnet_method config)
                  \<and> controlnet_method self \<noteq> req_controlnet_method config then
            (let self1 = self\<lparr>controlnet_method := req_controlnet_method config\<rparr>
             in case model self1 of
                  None \<Rightarrow> (Inl (AttributeError ''model''), self1)
                | Some b \<Rightarrow>
                    (Inr (),
                     emit (SwitchControlnetMethod (req_controlnet_method config))
                       (self1\<lparr>model := Some (model_switch_controlnet_method
                                                (req_controlnet_method config) b)\<rparr>)))
          else if enable_controlnet self \<noteq> req_enable_controlnet config then
            (let self1 = self\<lparr>enable_controlnet := req_enable_controlnet config,
                              controlnet_method := req_controlnet_method config\<rparr>
             in case model self1 of
                  None \<Rightarrow> (Inl (AttributeError ''model''), self1)
                | Some b \<Rightarrow>
                    (let pipe_components = \<lparr>pc_vae = vae b,
                                            pc_text_encoder = text_encoder b,
                                            pc_unet = unet b,
                                            pc_text_encoder_2 = text_encoder_2 b\<rparr>
                     in if kw_pipe_components (kwargs self1) \<noteq> None then
                          (Inl (TypeError ''pipe_components''), self1)
                        else
                          (case init_model env (name self1)
                                  (switch_mps_device env (name self1) (device self1))
                                  ((kwargs self1)\<lparr>kw_pipe_components := Some pipe_components\<rparr>)
                                  self1 of
                             (Inl e, self2) \<Rightarrow> (Inl e, self2)
                           | (Inr b', self2) \<Rightarrow> (Inr (), self2\<lparr>model := Some b'\<rparr>))))
          else (Inr (), self))"

subsection \<open>\<open>enable_disable_freeu\<close> (lines 162-176)\<close>

definition enable_disable_freeu ::
  "InpaintRequest \<Rightarrow> ModelManager \<Rightarrow> (error + unit) \<times> ModelManager" where
  "enable_disable_freeu config self =
     (case model self of
        None \<Rightarrow> (Inl (AttributeError ''model''), self)
      | Some b \<Rightarrow>
          if backend_device b = ''mps'' then (Inr (), self)
          else
            (case map_of (available_models self) (name self) of
               None \<Rightarrow> (Inl (KeyError (name self)), self)
             | Some info \<Rightarrow>
                 if support_freeu info then
                   (if sd_freeu config then
                      (let freeu_config = sd_freeu_config config
                       in (Inr (),
                           emit (EnableFreeu freeu_config)
                             (self\<lparr>model := Some (enable_freeu freeu_config b)\<rparr>)))
                    else
                      (Inr (), emit DisableFreeu (self\<lparr>model := Some (disable_freeu b)\<rparr>)))
                 else (Inr (), self)))"

subsection \<open>\<open>enable_disable_lcm_lora\<close> (lines 178-196)\<close>

definition enable_disable_lcm_lora ::
  "Env \<Rightarrow> InpaintRequest \<Rightarrow> ModelManager \<Rightarrow> (error + unit) \<times> ModelManager" where
  "enable_disable_lcm_lora env config self =
     (case map_of (available_models self) (name self) of
        None \<Rightarrow> (Inl (KeyError (name self)), self)
      | Some info \<Rightarrow>
          if support_lcm_lora info then
            (case model self of
               None \<Rightarrow> (Inl (AttributeError ''model''), self)
             | Some b \<Rightarrow>
                 (let lcm_lora_loaded = (get_list_adapters b \<noteq> [])
                  in if sd_lcm_lora config then
                       (if \<not> lcm_lora_loaded then
                          (case load_lora_weights env (lcm_lora_id b)
                                  (is_local_files_only env) b of
                             Inl e \<Rightarrow>
                               (Inl e,
                                emit (LoadLoraWeights (lcm_lora_id b)
                                        (is_local_files_only env)) self)
                           | Inr b' \<Rightarrow>
                               (Inr (),
                                emit (LoadLoraWeights (lcm_lora_id b)
                                        (is_local_files_only env))
                                  (self\<lparr>model := Some b'\<rparr>)))
                        else (Inr (), emit EnableLora (self\<lparr>model := Some (enable_lora b)\<rparr>)))
                     else
                       (if lcm_lora_loaded then
                          (Inr (), emit DisableLora (self\<lparr>model := Some (disable_lora b)\<rparr>))
                        else (Inr (), self))))
          else (Inr (), self))"

subsection \<open>\<open>__call__\<close> (lines 71-86)\<close>

definition call ::
  "Env \<Rightarrow> ndarray \<Rightarrow> ndarray \<Rightarrow> InpaintRequest \<Rightarrow> ModelManager
     \<Rightarrow> (error + ndarray) \<times> ModelManager" where
  "call env image' mask' config self =
     (case switch_controlnet_method env config self of
        (Inl e, self1) \<Rightarrow> (Inl e, self1)
      | (Inr _, self1) \<Rightarrow>
          (case enable_disable_freeu config self1 of
             (Inl e, self2) \<Rightarrow> (Inl e, self2)
           | (Inr _, self2) \<Rightarrow>
               (case enable_disable_lcm_lora env config self2 of
                  (Inl e, self3) \<Rightarrow> (Inl e, self3)
                | (Inr _, self3) \<Rightarrow>
                    (case model self3 of
                       None \<Rightarrow> (Inl (AttributeError ''model''), self3)
                     | Some b \<Rightarrow>
                         (case model_call env b image' mask' config of
                            Inl e \<Rightarrow> (Inl e, emit (ModelCall image' mask' config) self3)
                          | Inr out \<Rightarrow>
                              (Inr (astype_uint8 env out),
                               emit (ModelCall image' mask' config) self3))))))"


section \<open>Vocabulary of the properties\<close>

subsection \<open>Kinds of collaborator calls\<close>

fun is_construct :: "event \<Rightarrow> bool" where
  "is_construct (Construct _ _ _) = True"
| "is_construct _ = False"

fun is_aux_event :: "event \<Rightarrow> bool" where
  "is_aux_event (Construct _ _ _) = True"
| "is_aux_event (SwitchControlnetMethod _) = True"
| "is_aux_event _ = False"

fun is_tuning_event :: "event \<Rightarrow> bool" where
  "is_tuning_event (EnableFreeu _) = True"
| "is_tuning_event DisableFreeu = True"
| "is_tuning_event _ = False"

fun is_adapter_event :: "event \<Rightarrow> bool" where
  "is_adapter_event (LoadLoraWeights _ _) = True"
| "is_adapter_event EnableLora = True"
| "is_adapter_event DisableLora = True"
| "is_adapter_event _ = False"

subsection \<open>Calls made by an operation\<close>

definition new_events :: "ModelManager \<Rightarrow> ModelManager \<Rightarrow> event list" where
  "new_events before after = drop (length (trace before)) (trace after)"

text \<open>The classes constructed by a list of calls, in order.\<close>

fun constructed_kinds :: "event list \<Rightarrow> BackendKind list" where
  "constructed_kinds [] = []"
| "constructed_kinds (Construct k _ _ # evs) = k # constructed_kinds evs"
| "constructed_kinds (_ # evs) = constructed_kinds evs"

subsection \<open>The method invariant\<close>

text \<open>
  \<open>method_listed\<close> is the invariant as the specification words it: the current method, if
  set, is in the current descriptor's \<open>controlnets\<close>. \<open>method_listed_if_supported\<close> asks
  this only of a descriptor with \<open>support_controlnet\<close>. \<open>request_method_listed\<close> says that
  a method, if given, is one the descriptor lists.
\<close>

definition method_listed :: "ModelManager \<Rightarrow> bool" where
  "method_listed self =
     (case controlnet_method self of
        None \<Rightarrow> True
      | Some c \<Rightarrow>
          (case map_of (available_models self) (name self) of
             None \<Rightarrow> True
           | Some info \<Rightarrow> c \<in> set (controlnets info)))"

definition method_listed_if_supported :: "ModelManager \<Rightarrow> bool" where
  "method_listed_if_supported self =
     (case map_of (available_models self) (name self) of
        None \<Rightarrow> True
      | Some info \<Rightarrow>
          (if support_controlnet info then
             (case controlnet_method self of
                None \<Rightarrow> True
              | Some c \<Rightarrow> c \<in> set (controlnets info))
           else True))"

definition request_method_listed :: "string option \<Rightarrow> ModelManager \<Rightarrow> bool" where
  "request_method_listed v self =
     (case map_of (available_models self) (name self) of
        None \<Rightarrow> True
      | Some info \<Rightarrow>
          (if support_controlnet info then
             (case v of None \<Rightarrow> True | Some c \<Rightarrow> c \<in> set (controlnets info))
           else True))"

section \<open>A concrete catalog and environment\<close>

text \<open>
  The catalog of the specification's end-to-end scenario (\<open>sd-v1\<close> without ControlNet,
  \<open>sdxl\<close> with the methods \<open>canny\<close> and \<open>depth\<close>), with a registered model \<open>lama\<close>, a model
  \<open>broken\<close> whose class raises when constructed and a model \<open>other\<close> of a kind no class
  handles.
\<close>

definition sd_v1 :: ModelInfo where
  "sd_v1 = \<lparr>info_name = ''sd-v1'', model_type = DIFFUSERS_SD_INPAINT,
            support_controlnet = False, controlnets = [],
            support_freeu = True, support_lcm_lora = True\<rparr>"

definition sdxl :: ModelInfo where
  "sdxl = \<lparr>info_name = ''sdxl'', model_type = DIFFUSERS_SDXL,
           support_controlnet = True, controlnets = [''canny'', ''depth''],
           support_freeu = True, support_lcm_lora = True\<rparr>"

definition lama :: ModelInfo where
  "lama = \<lparr>info_name = ''lama'', model_type = INPAINT,
           support_controlnet = False, controlnets = [],
           support_freeu = False, support_lcm_lora = False\<rparr>"

definition broken :: ModelInfo where
  "broken = \<lparr>info_name = ''broken'', model_type = DIFFUSERS_SD,
             support_controlnet = False, controlnets = [],
             support_freeu = True, support_lcm_lora = True\<rparr>"

definition other :: ModelInfo where
  "other = \<lparr>info_name = ''other'', model_type = DIFFUSERS_OTHER,
            support_controlnet = False, controlnets = [],
            support_freeu = False, support_lcm_lora = False\<rparr>"

text \<open>
  Modelled from the spec: what a model class returns when it is constructed, for the
  concrete environment only. The new model is untuned and has no adapter; it takes the
  shared sub-components it is given instead of loading its own.
\<close>

definition fresh_backend :: "BackendKind \<Rightarrow> string \<Rightarrow> BuildKwargs \<Rightarrow> Backend" where
  "fresh_backend k d a =
     \<lparr>kind = k, backend_device = d,
      vae = (case bk_pipe_components a of None \<Rightarrow> 1 | Some pc \<Rightarrow> pc_vae pc),
      text_encoder = (case bk_pipe_components a of None \<Rightarrow> 2 | Some pc \<Rightarrow> pc_text_encoder pc),
      unet = (case bk_pipe_components a of None \<Rightarrow> 3 | Some pc \<Rightarrow> pc_unet pc),
      text_encoder_2 = (case bk_pipe_components a of None \<Rightarrow> None | Some pc \<Rightarrow> pc_text_encoder_2 pc),
      lcm_lora_id = ''lcm-lora'',
      backend_controlnet_method = (if k = ControlNet then bk_controlnet_method a else None),
      freeu = None, list_adapters = [], lora_enabled = False\<rparr>"

definition env0 :: Env where
  "env0 =
     \<lparr>download_scan_models = [sd_v1, sdxl, lama, broken, other],
      models = [''lama''],
      construct = (\<lambda>k d a. if info_name (bk_model_info a) = ''broken''
                             then Inl (RuntimeError ''out of memory'')
                             else Inr (fresh_backend k d a)),
      switch_mps_device = (\<lambda>n d. if n = ''lama'' \<and> d = ''mps'' then ''cpu'' else d),
      is_local_files_only = False,
      fetch_lora_weights = (\<lambda>_ _. None),
      model_call = (\<lambda>b i m c. Inr i),
      astype_uint8 = map (\<lambda>v. v mod 256)\<rparr>"

definition catalog0 :: "(string \<times> ModelInfo) list" where
  "catalog0 = [(''sd-v1'', sd_v1), (''sdxl'', sdxl), (''lama'', lama),
               (''broken'', broken), (''other'', other)]"

definition kwargs0 :: Kwargs where
  "kwargs0 = \<lparr>kw_enable_controlnet = None, kw_controlnet_method = None,
               kw_pipe_components = None, kw_rest = []\<rparr>"

definition args0 :: "ModelInfo \<Rightarrow> bool \<Rightarrow> string option \<Rightarrow> BuildKwargs" where
  "args0 info en cm =
     \<lparr>bk_rest = [], bk_pipe_components = None, bk_model_info = info,
      bk_enable_controlnet = en, bk_controlnet_method = cm\<rparr>"

text \<open>The manager right after \<open>ModelManager('sd-v1', 'cuda')\<close>.\<close>

definition mgr_sd_v1 :: ModelManager where
  "mgr_sd_v1 =
     \<lparr>name = ''sd-v1'', device = ''cuda'', kwargs = kwargs0, available_models = catalog0,
      enable_controlnet = False, controlnet_method = None,
      model = Some (fresh_backend SD ''cuda'' (args0 sd_v1 False None)),
      trace = [Construct SD ''cuda'' (args0 sd_v1 False None)]\<rparr>"

text \<open>The manager right after \<open>ModelManager('sdxl', 'cuda', enable_controlnet=True)\<close>.\<close>

definition mgr_sdxl :: ModelManager where
  "mgr_sdxl =
     \<lparr>name = ''sdxl'', device = ''cuda'',
      kwargs = kwargs0\<lparr>kw_enable_controlnet := Some True\<rparr>, available_models = catalog0,
      enable_controlnet = True, controlnet_method = Some ''canny'',
      model = Some (fresh_backend ControlNet ''cuda'' (args0 sdxl True (Some ''canny''))),
      trace = [Construct ControlNet ''cuda'' (args0 sdxl True (Some ''canny''))]\<rparr>"

definition request0 :: InpaintRequest where
  "request0 =
     \<lparr>req_enable_controlnet = False, req_controlnet_method = None,
      sd_freeu = False,
      sd_freeu_config = \<lparr>s1 = 0.9, s2 = 0.2, b1 = 1.2, b2 = 1.4\<rparr>,
      sd_lcm_lora = False\<rparr>"

text \<open>A request for the method \<open>depth\<close> with ControlNet, tuning and adapter all enabled.\<close>

definition request_depth :: InpaintRequest where
  "request_depth =
     request0\<lparr>req_enable_controlnet := True, req_controlnet_method := Some ''depth'',
              sd_freeu := True, sd_lcm_lora := True\<rparr>"

text \<open>A request that only asks for the adapter.\<close>

definition request_lcm :: InpaintRequest where
  "request_lcm = request0\<lparr>sd_lcm_lora := True\<rparr>"

text \<open>A request that names a method \<open>sdxl\<close> does not list.\<close>

definition request_openpose :: InpaintRequest where
  "request_openpose =
     request0\<lparr>req_enable_controlnet := True, req_controlnet_method := Some ''openpose''\<rparr>"

text \<open>
  The manager right after
  \<open>ModelManager('sdxl', 'cuda', enable_controlnet=True, controlnet_method='openpose')\<close>.
\<close>

definition kwargs_pinned :: Kwargs where
  "kwargs_pinned = kwargs0\<lparr>kw_enable_controlnet := Some True,
                           kw_controlnet_method := Some ''openpose''\<rparr>"

definition mgr_sdxl_pinned :: ModelManager where
  "mgr_sdxl_pinned =
     \<lparr>name = ''sdxl'', device = ''cuda'', kwargs = kwargs_pinned, available_models = catalog0,
      enable_controlnet = True, controlnet_method = Some ''openpose'',
      model = Some (fresh_backend ControlNet ''cuda'' (args0 sdxl True (Some ''openpose''))),
      trace = [Construct ControlNet ''cuda'' (args0 sdxl True (Some ''openpose''))]\<rparr>"

text \<open>The manager right after \<open>ModelManager('sdxl', 'cuda')\<close>, ControlNet not enabled.\<close>

definition mgr_sdxl_off :: ModelManager where
  "mgr_sdxl_off =
     \<lparr>name = ''sdxl'', device = ''cuda'', kwargs = kwargs0, available_models = catalog0,
      enable_controlnet = False, controlnet_method = Some ''canny'',
      model = Some (fresh_backend SDXL ''cuda'' (args0 sdxl False (Some ''canny''))),
      trace = [Construct SDXL ''cuda'' (args0 sdxl False (Some ''canny''))]\<rparr>"

text \<open>
  The manager \<open>mgr_sdxl\<close> after \<open>switch('lama')\<close>: ControlNet is still enabled and the method
  is still \<open>canny\<close>, under a descriptor without ControlNet.
\<close>

definition mgr_lama_stale :: ModelManager where
  "mgr_lama_stale =
     mgr_sdxl\<lparr>name := ''lama'',
              model := Some (fresh_backend (Registered ''lama'') ''cuda''
                               (args0 lama True (Some ''canny''))),
              trace := trace mgr_sdxl @
                 [TorchGc,
                  Construct (Registered ''lama'') ''cuda'' (args0 lama True (Some ''canny''))]\<rparr>"

section \<open>Facts about the concrete environment\<close>

lemmas example_defs = env0_def catalog0_def kwargs0_def args0_def mgr_sd_v1_def mgr_sdxl_def
  request0_def sd_v1_def sdxl_def lama_def broken_def other_def fresh_backend_def
  request_depth_def request_lcm_def request_openpose_def kwargs_pinned_def mgr_sdxl_pinned_def
  mgr_sdxl_off_def mgr_lama_stale_def

text \<open>The definitions to unfold when an operation is run on a concrete manager.\<close>

lemmas step_defs = call_def switch_controlnet_method_def enable_disable_freeu_def
  enable_disable_lcm_lora_def load_lora_weights_def get_list_adapters_def enable_freeu_def
  disable_freeu_def enable_lora_def disable_lora_def model_switch_controlnet_method_def
  truthy_def emit_def Let_def

lemmas switch_defs = switch_def switch_reset_method_def switch_try_def switch_rollback_def
  init_model_def build_kwargs_def not_in_def emit_def Let_def

text \<open>The example managers are what the constructor returns.\<close>

lemma mgr_sd_v1_constructed:
  "ModelManager_init env0 ''sd-v1'' ''cuda'' kwargs0 = Inr mgr_sd_v1"
  by (simp add: ModelManager_init_def scan_models_def init_model_def build_kwargs_def
      emit_def Let_def example_defs)

lemma mgr_sdxl_constructed:
  "ModelManager_init env0 ''sdxl'' ''cuda'' (kwargs0\<lparr>kw_enable_controlnet := Some True\<rparr>)
     = Inr mgr_sdxl"
  by (simp add: ModelManager_init_def scan_models_def init_model_def build_kwargs_def
      emit_def Let_def example_defs)

lemma mgr_sdxl_pinned_constructed:
  "ModelManager_init env0 ''sdxl'' ''cuda'' kwargs_pinned = Inr mgr_sdxl_pinned"
  by (simp add: ModelManager_init_def scan_models_def init_model_def build_kwargs_def
      emit_def Let_def example_defs)

lemma mgr_sdxl_off_constructed:
  "ModelManager_init env0 ''sdxl'' ''cuda'' kwargs0 = Inr mgr_sdxl_off"
  by (simp add: ModelManager_init_def scan_models_def init_model_def build_kwargs_def
      emit_def Let_def example_defs)

lemma mgr_lama_stale_reached:
  "switch env0 ''lama'' mgr_sdxl = (Inr (), mgr_lama_stale)"
  by (simp add: switch_defs example_defs)

section \<open>The factory \<open>init_model\<close>\<close>

text \<open>
  What \<open>init_model\<close> returns depends on the manager only through the catalog and the two
  ControlNet fields; the manager it leaves differs from the one it got by at most one
  \<open>Construct\<close> call, and it returns a model only after such a call.
\<close>

lemma init_model_fst_cong:
  assumes "available_models s = available_models s'"
    and "enable_controlnet s = enable_controlnet s'"
    and "controlnet_method s = controlnet_method s'"
  shows "fst (init_model env n d kw s) = fst (init_model env n d kw s')"
  using assms by (simp add: init_model_def build_kwargs_def Let_def split: option.splits)

lemma init_model_snd:
  "\<exists>evs. snd (init_model env n d kw s) = s\<lparr>trace := trace s @ evs\<rparr> \<and> list_all is_construct evs"
proof (cases "snd (init_model env n d kw s) = s")
  case True
  then have "snd (init_model env n d kw s) = s\<lparr>trace := trace s @ []\<rparr> \<and> list_all is_construct []"
    by simp
  then show ?thesis by blast
next
  case False
  then obtain k a where "snd (init_model env n d kw s) = emit (Construct k d a) s"
    by (auto simp: init_model_def Let_def split: option.splits if_splits)
  then have "snd (init_model env n d kw s) = s\<lparr>trace := trace s @ [Construct k d a]\<rparr>
      \<and> list_all is_construct [Construct k d a]"
    by (simp add: emit_def)
  then show ?thesis by blast
qed

lemma init_model_Inr_trace:
  assumes "init_model env n d kw s = (Inr b, s')"
  shows "\<exists>k a. s' = s\<lparr>trace := trace s @ [Construct k d a]\<rparr>"
  using assms
  by (auto simp: init_model_def Let_def emit_def split: option.splits if_splits)

lemma init_model_frame:
  assumes "init_model env n d kw s = (r, s')"
  shows "name s' = name s \<and> available_models s' = available_models s
       \<and> controlnet_method s' = controlnet_method s \<and> enable_controlnet s' = enable_controlnet s
       \<and> model s' = model s \<and> device s' = device s \<and> kwargs s' = kwargs s"
proof -
  obtain evs where "snd (init_model env n d kw s) = s\<lparr>trace := trace s @ evs\<rparr>"
    using init_model_snd by blast
  with assms show ?thesis by simp
qed

text \<open>
  The catalog that \<open>scan_models\<close> builds is keyed by descriptor name: the descriptor stored
  under \<open>n\<close> has \<open>info_name = n\<close>.
\<close>

lemma map_of_fold_update_name:
  "map_of (fold (\<lambda>it d. AList.update (info_name it) it d) xs acc) n = Some info
   \<Longrightarrow> (\<And>i. map_of acc n = Some i \<Longrightarrow> info_name i = n) \<Longrightarrow> info_name info = n"
proof (induction xs arbitrary: acc)
  case Nil
  then show ?case by simp
next
  case (Cons x xs)
  show ?case
  proof (rule Cons.IH [OF Cons.prems(1) [simplified]])
    fix i
    assume "map_of (AList.update (info_name x) x acc) n = Some i"
    then show "info_name i = n"
      using Cons.prems(2) by (auto simp: update_conv' split: if_splits)
  qed
qed

lemma scan_models_keyed_by_name:
  assumes "map_of (available_models (snd (scan_models env self))) n = Some info"
  shows "info_name info = n"
  using assms map_of_fold_update_name [of "download_scan_models env" "[]" n info]
  by (simp add: scan_models_def Let_def)

text \<open>
  The constructor takes the flag \<open>enable_controlnet\<close> from the options; afterwards only the
  ControlNet step of \<open>__call__\<close> writes it.
\<close>

lemma init_flag_from_options:
  assumes "ModelManager_init env n d kw = Inr m"
  shows "enable_controlnet m = (case kw_enable_controlnet kw of None \<Rightarrow> False | Some b \<Rightarrow> b)"
  using assms unfolding ModelManager_init_def scan_models_def Let_def
  by (auto split: sum.splits prod.splits dest!: init_model_frame)

text \<open>
  C7 as the specification states it (the \<open>ControlNet\<close> class exactly when the descriptor
  supports ControlNet and the options enable it) fails in both directions once a request
  has changed the flag. The manager built with \<open>enable_controlnet=True\<close> serves a request
  that turns ControlNet off: the options still say \<open>True\<close>, the rebuild of that
  \<open>__call__\<close> constructs \<open>SDXL\<close>, and so does the factory called again on the manager it
  leaves. The manager built without the option serves a request that turns ControlNet on:
  the options still do not enable it, and the class constructed is \<open>ControlNet\<close>.
\<close>

theorem init_model_dispatch_counterexample:
  "ModelManager_init env0 ''sdxl'' ''cuda'' (kwargs0\<lparr>kw_enable_controlnet := Some True\<rparr>)
     = Inr mgr_sdxl
   \<and> fst (call env0 [1] [255] request0 mgr_sdxl) = Inr [1]
   \<and> kw_enable_controlnet (kwargs (snd (call env0 [1] [255] request0 mgr_sdxl))) = Some True
   \<and> map_of (available_models (snd (call env0 [1] [255] request0 mgr_sdxl))) ''sdxl'' = Some sdxl
   \<and> support_controlnet sdxl
   \<and> constructed_kinds (new_events mgr_sdxl (snd (call env0 [1] [255] request0 mgr_sdxl)))
       = [SDXL]
   \<and> constructed_kinds
        (new_events (snd (call env0 [1] [255] request0 mgr_sdxl))
           (snd (init_model env0 ''sdxl'' ''cuda''
                   (kwargs (snd (call env0 [1] [255] request0 mgr_sdxl)))
                   (snd (call env0 [1] [255] request0 mgr_sdxl)))))
       = [SDXL]
   \<and> ModelManager_init env0 ''sdxl'' ''cuda'' kwargs0 = Inr mgr_sdxl_off
   \<and> fst (call env0 [1] [255] request_depth mgr_sdxl_off) = Inr [1]
   \<and> kw_enable_controlnet (kwargs (snd (call env0 [1] [255] request_depth mgr_sdxl_off))) = None
   \<and> constructed_kinds
        (new_events mgr_sdxl_off (snd (call env0 [1] [255] request_depth mgr_sdxl_off)))
       = [ControlNet]
   \<and> constructed_kinds
        (new_events (snd (call env0 [1] [255] request_depth mgr_sdxl_off))
           (snd (init_model env0 ''sdxl'' ''cuda''
                   (kwargs (snd (call env0 [1] [255] request_depth mgr_sdxl_off)))
                   (snd (call env0 [1] [255] request_depth mgr_sdxl_off)))))
       = [ControlNet]"
proof -
  have on: "call env0 [1] [255] request0 mgr_sdxl
     = (Inr [1],
        mgr_sdxl\<lparr>enable_controlnet := False, controlnet_method := None,
          model := Some (disable_freeu (fresh_backend SDXL ''cuda''
             ((args0 sdxl False None)\<lparr>bk_pipe_components :=
                Some \<lparr>pc_vae = 1, pc_text_encoder = 2, pc_unet = 3, pc_text_encoder_2 = None\<rparr>\<rparr>))),
          trace := trace mgr_sdxl @
            [Construct SDXL ''cuda''
               ((args0 sdxl False None)\<lparr>bk_pipe_components :=
                  Some \<lparr>pc_vae = 1, pc_text_encoder = 2, pc_unet = 3, pc_text_encoder_2 = None\<rparr>\<rparr>),
             DisableFreeu, ModelCall [1] [255] request0]\<rparr>)"
    by (simp add: step_defs init_model_def build_kwargs_def example_defs)
  have off: "call env0 [1] [255] request_depth mgr_sdxl_off
     = (Inr [1],
        mgr_sdxl_off\<lparr>enable_controlnet := True, controlnet_method := Some ''depth'',
          model := Some ((fresh_backend ControlNet ''cuda''
             ((args0 sdxl True (Some ''depth''))\<lparr>bk_pipe_components :=
                Some \<lparr>pc_vae = 1, pc_text_encoder = 2, pc_unet = 3, pc_text_encoder_2 = None\<rparr>\<rparr>))
             \<lparr>freeu := Some (sd_freeu_config request_depth),
              list_adapters := [''lcm-lora''], lora_enabled := True\<rparr>),
          trace := trace mgr_sdxl_off @
            [Construct ControlNet ''cuda''
               ((args0 sdxl True (Some ''depth''))\<lparr>bk_pipe_components :=
                  Some \<lparr>pc_vae = 1, pc_text_encoder = 2, pc_unet = 3, pc_text_encoder_2 = None\<rparr>\<rparr>),
             EnableFreeu (sd_freeu_config request_depth), LoadLoraWeights ''lcm-lora'' False,
             ModelCall [1] [255] request_depth]\<rparr>)"
    by (simp add: step_defs init_model_def build_kwargs_def example_defs)
  have rest: "fst (call env0 [1] [255] request0 mgr_sdxl) = Inr [1]
   \<and> kw_enable_controlnet (kwargs (snd (call env0 [1] [255] request0 mgr_sdxl))) = Some True
   \<and> map_of (available_models (snd (call env0 [1] [255] request0 mgr_sdxl))) ''sdxl'' = Some sdxl
   \<and> support_controlnet sdxl
   \<and> constructed_kinds (new_events mgr_sdxl (snd (call env0 [1] [255] request0 mgr_sdxl)))
       = [SDXL]
   \<and> constructed_kinds
        (new_events (snd (call env0 [1] [255] request0 mgr_sdxl))
           (snd (init_model env0 ''sdxl'' ''cuda''
                   (kwargs (snd (call env0 [1] [255] request0 mgr_sdxl)))
                   (snd (call env0 [1] [255] request0 mgr_sdxl)))))
       = [SDXL]
   \<and> fst (call env0 [1] [255] request_depth mgr_sdxl_off) = Inr [1]
   \<and> kw_enable_controlnet (kwargs (snd (call env0 [1] [255] request_depth mgr_sdxl_off))) = None
   \<and> constructed_kinds
        (new_events mgr_sdxl_off (snd (call env0 [1] [255] request_depth mgr_sdxl_off)))
       = [ControlNet]
   \<and> constructed_kinds
        (new_events (snd (call env0 [1] [255] request_depth mgr_sdxl_off))
           (snd (init_model env0 ''sdxl'' ''cuda''
                   (kwargs (snd (call env0 [1] [255] request_depth mgr_sdxl_off)))
                   (snd (call env0 [1] [255] request_depth mgr_sdxl_off)))))
       = [ControlNet]"
    unfolding on off
    by (simp add: new_events_def init_model_def build_kwargs_def emit_def Let_def example_defs)
  show ?thesis
    using mgr_sdxl_constructed mgr_sdxl_off_constructed rest by simp
qed

text \<open>
  C7, as amended. Dispatch order of the factory, for a descriptor \<open>info\<close> stored in the
  catalog under its own name \<open>n\<close>: when the descriptor supports ControlNet and the
  manager's current flag \<open>enable_controlnet\<close> is set, the \<open>ControlNet\<close> class is
  constructed; otherwise, when \<open>n\<close> is a key of the registry \<open>models\<close>, the registered
  class; otherwise \<open>SD\<close> for the two SD model types and \<open>SDXL\<close> for the two SDXL model
  types; and when none of these applies the factory raises \<open>NotImplementedError\<close>
  (unsupported model) without constructing anything. The five conditions exclude each
  other and cover every case, so each variant is chosen exactly when its condition holds.
  In each case the result is whatever the class returns on the keyword dictionary of lines
  45-50. The flag of a manager that the constructor returns is the value of the options.
\<close>

theorem init_model_dispatch:
  assumes "map_of (available_models self) n = Some info"
    and "info_name info = n"
  shows "(support_controlnet info \<and> enable_controlnet self \<longrightarrow>
            init_model env n d kw self
              = (construct env ControlNet d (build_kwargs kw info self),
                 emit (Construct ControlNet d (build_kwargs kw info self)) self))
       \<and> (\<not> (support_controlnet info \<and> enable_controlnet self) \<and> n \<in> set (models env) \<longrightarrow>
            init_model env n d kw self
              = (construct env (Registered n) d (build_kwargs kw info self),
                 emit (Construct (Registered n) d (build_kwargs kw info self)) self))
       \<and> (\<not> (support_controlnet info \<and> enable_controlnet self) \<and> n \<notin> set (models env)
            \<and> (model_type info = DIFFUSERS_SD_INPAINT \<or> model_type info = DIFFUSERS_SD) \<longrightarrow>
            init_model env n d kw self
              = (construct env SD d (build_kwargs kw info self),
                 emit (Construct SD d (build_kwargs kw info self)) self))
       \<and> (\<not> (support_controlnet info \<and> enable_controlnet self) \<and> n \<notin> set (models env)
            \<and> (model_type info = DIFFUSERS_SDXL_INPAINT \<or> model_type info = DIFFUSERS_SDXL) \<longrightarrow>
            init_model env n d kw self
              = (construct env SDXL d (build_kwargs kw info self),
                 emit (Construct SDXL d (build_kwargs kw info self)) self))
       \<and> (\<not> (support_controlnet info \<and> enable_controlnet self) \<and> n \<notin> set (models env)
            \<and> model_type info \<notin> {DIFFUSERS_SD_INPAINT, DIFFUSERS_SD,
                                     DIFFUSERS_SDXL_INPAINT, DIFFUSERS_SDXL} \<longrightarrow>
            init_model env n d kw self = (Inl (NotImplementedError n), self))
       \<and> (ModelManager_init env n' d' kw' = Inr m \<longrightarrow>
            enable_controlnet m
              = (case kw_enable_controlnet kw' of None \<Rightarrow> False | Some b \<Rightarrow> b))"
  using assms init_flag_from_options [of env n' d' kw' m]
  by (simp add: init_model_def Let_def)

theorem init_model_dispatch_witness:
  "ModelManager_init env0 ''sdxl'' ''cuda'' (kwargs0\<lparr>kw_enable_controlnet := Some True\<rparr>)
     = Inr mgr_sdxl
   \<and> enable_controlnet mgr_sdxl
       = (case kw_enable_controlnet (kwargs0\<lparr>kw_enable_controlnet := Some True\<rparr>) of
            None \<Rightarrow> False | Some b \<Rightarrow> b)
   \<and> map_of (available_models mgr_sdxl) ''sdxl'' = Some sdxl \<and> info_name sdxl = ''sdxl''
   \<and> support_controlnet sdxl \<and> enable_controlnet mgr_sdxl
   \<and> init_model env0 ''sdxl'' ''cuda'' kwargs0 mgr_sdxl
       = (construct env0 ControlNet ''cuda'' (build_kwargs kwargs0 sdxl mgr_sdxl),
          emit (Construct ControlNet ''cuda'' (build_kwargs kwargs0 sdxl mgr_sdxl)) mgr_sdxl)
   \<and> map_of (available_models mgr_sd_v1) ''lama'' = Some lama \<and> info_name lama = ''lama''
   \<and> \<not> (support_controlnet lama \<and> enable_controlnet mgr_sd_v1) \<and> ''lama'' \<in> set (models env0)
   \<and> init_model env0 ''lama'' ''cpu'' kwargs0 mgr_sd_v1
       = (construct env0 (Registered ''lama'') ''cpu'' (build_kwargs kwargs0 lama mgr_sd_v1),
          emit (Construct (Registered ''lama'') ''cpu'' (build_kwargs kwargs0 lama mgr_sd_v1))
            mgr_sd_v1)
   \<and> map_of (available_models mgr_sd_v1) ''sdxl'' = Some sdxl
   \<and> \<not> (support_controlnet sdxl \<and> enable_controlnet mgr_sd_v1) \<and> ''sdxl'' \<notin> set (models env0)
   \<and> (model_type sdxl = DIFFUSERS_SDXL_INPAINT \<or> model_type sdxl = DIFFUSERS_SDXL)
   \<and> init_model env0 ''sdxl'' ''cuda'' kwargs0 mgr_sd_v1
       = (construct env0 SDXL ''cuda'' (build_kwargs kwargs0 sdxl mgr_sd_v1),
          emit (Construct SDXL ''cuda'' (build_kwargs kwargs0 sdxl mgr_sd_v1)) mgr_sd_v1)
   \<and> map_of (available_models mgr_sd_v1) ''other'' = Some other \<and> info_name other = ''other''
   \<and> \<not> (support_controlnet other \<and> enable_controlnet mgr_sd_v1) \<and> ''other'' \<notin> set (models env0)
   \<and> model_type other \<notin> {DIFFUSERS_SD_INPAINT, DIFFUSERS_SD,
                            DIFFUSERS_SDXL_INPAINT, DIFFUSERS_SDXL}
   \<and> init_model env0 ''other'' ''cuda'' kwargs0 mgr_sd_v1
       = (Inl (NotImplementedError ''other''), mgr_sd_v1)"
proof -
  have a1: "map_of (available_models mgr_sdxl) ''sdxl'' = Some sdxl"
    and a2: "map_of (available_models mgr_sd_v1) ''lama'' = Some lama"
    and a3: "map_of (available_models mgr_sd_v1) ''sdxl'' = Some sdxl"
    and a4: "map_of (available_models mgr_sd_v1) ''other'' = Some other"
    by (simp_all add: mgr_sdxl_def mgr_sd_v1_def catalog0_def)
  have n1: "info_name sdxl = ''sdxl''" and n2: "info_name lama = ''lama''"
    and n4: "info_name other = ''other''"
    by (simp_all add: sdxl_def lama_def other_def)
  have c1: "support_controlnet sdxl \<and> enable_controlnet mgr_sdxl"
    by (simp add: sdxl_def mgr_sdxl_def)
  have c2: "\<not> (support_controlnet lama \<and> enable_controlnet mgr_sd_v1)
            \<and> ''lama'' \<in> set (models env0)"
    by (simp add: lama_def mgr_sd_v1_def env0_def)
  have c3: "\<not> (support_controlnet sdxl \<and> enable_controlnet mgr_sd_v1)
            \<and> ''sdxl'' \<notin> set (models env0)
            \<and> (model_type sdxl = DIFFUSERS_SDXL_INPAINT \<or> model_type sdxl = DIFFUSERS_SDXL)"
    by (simp add: sdxl_def mgr_sd_v1_def env0_def)
  have c4: "\<not> (support_controlnet other \<and> enable_controlnet mgr_sd_v1)
            \<and> ''other'' \<notin> set (models env0)
            \<and> model_type other \<notin> {DIFFUSERS_SD_INPAINT, DIFFUSERS_SD,
                                     DIFFUSERS_SDXL_INPAINT, DIFFUSERS_SDXL}"
    by (simp add: other_def mgr_sd_v1_def env0_def)
  have r1: "init_model env0 ''sdxl'' ''cuda'' kwargs0 mgr_sdxl
       = (construct env0 ControlNet ''cuda'' (build_kwargs kwargs0 sdxl mgr_sdxl),
          emit (Construct ControlNet ''cuda'' (build_kwargs kwargs0 sdxl mgr_sdxl)) mgr_sdxl)"
    using init_model_dispatch [OF a1 n1, of env0 "''cuda''" kwargs0] c1 by simp
  have r2: "init_model env0 ''lama'' ''cpu'' kwargs0 mgr_sd_v1
       = (construct env0 (Registered ''lama'') ''cpu'' (build_kwargs kwargs0 lama mgr_sd_v1),
          emit (Construct (Registered ''lama'') ''cpu'' (build_kwargs kwargs0 lama mgr_sd_v1))
            mgr_sd_v1)"
    using init_model_dispatch [OF a2 n2, of env0 "''cpu''" kwargs0] c2 by simp
  have r3: "init_model env0 ''sdxl'' ''cuda'' kwargs0 mgr_sd_v1
       = (construct env0 SDXL ''cuda'' (build_kwargs kwargs0 sdxl mgr_sd_v1),
          emit (Construct SDXL ''cuda'' (build_kwargs kwargs0 sdxl mgr_sd_v1)) mgr_sd_v1)"
    using init_model_dispatch [OF a3 n1, of env0 "''cuda''" kwargs0] c3 by simp
  have r4: "init_model env0 ''other'' ''cuda'' kwargs0 mgr_sd_v1
       = (Inl (NotImplementedError ''other''), mgr_sd_v1)"
    using init_model_dispatch [OF a4 n4, of env0 "''cuda''" kwargs0] c4 by simp
  have r5: "enable_controlnet mgr_sdxl
       = (case kw_enable_controlnet (kwargs0\<lparr>kw_enable_controlnet := Some True\<rparr>) of
            None \<Rightarrow> False | Some b \<Rightarrow> b)"
    using init_model_dispatch [OF a1 n1, where env = env0 and n' = "''sdxl''"
        and d' = "''cuda''" and kw' = "kwargs0\<lparr>kw_enable_controlnet := Some True\<rparr>"
        and m = mgr_sdxl] mgr_sdxl_constructed
    by blast
  show ?thesis
    using mgr_sdxl_constructed a1 a2 a3 a4 n1 n2 n4 c1 c2 c3 c4 r1 r2 r3 r4 r5 by simp
qed

section \<open>Properties of \<open>switch\<close>\<close>

text \<open>
  C9. \<open>switch\<close> applied to the currently active name is a no-op in every manager state: it
  returns normally and leaves the whole manager as it was, the held model and the trace of
  collaborator calls included, so nothing is released and nothing is rebuilt.
\<close>

theorem switch_current_name_noop:
  "switch env (name self) self = (Inr (), self)"
  by (simp add: switch_def)

theorem switch_current_name_noop_witness:
  "switch env0 (name mgr_sdxl) mgr_sdxl = (Inr (), mgr_sdxl)"
  using switch_current_name_noop [of env0 mgr_sdxl] by simp

text \<open>
  C1. Fail-atomicity of \<open>switch\<close>. The manager holds a model for \<open>name self\<close> (A) and is
  asked for a different catalog name \<open>new_name\<close> (B); \<open>self_B\<close> is the manager as lines
  99-106 leave it (name B, method reset if B does not list it). If building B's model fails
  with \<open>e\<close> and rebuilding A's model returns \<open>b\<close>, then \<open>switch\<close> raises exactly \<open>e\<close> and
  leaves the manager as it was before the call (name A, the method of the checkpoint, the
  same flag, catalog, device and options) except that the held model is the rebuilt \<open>b\<close>
  and the trace has grown by the calls made.
\<close>

theorem switch_fail_atomic:
  assumes "new_name \<noteq> name self"
    and "map_of (available_models self) new_name = Some info"
    and "switch_reset_method info (self\<lparr>name := new_name\<rparr>) = Inr self_B"
    and "model self = Some b0"
    and "fst (init_model env new_name (switch_mps_device env new_name (device self))
                (kwargs self) self_B) = Inl e"
    and "fst (init_model env (name self) (switch_mps_device env (name self) (device self))
                (kwargs self) self) = Inr b"
  shows "\<exists>evs. switch env new_name self
            = (Inl e, self\<lparr>model := Some b, trace := trace self @ evs\<rparr>)"
proof -
  let ?dB = "switch_mps_device env new_name (device self)"
  let ?dA = "switch_mps_device env (name self) (device self)"
  have B: "self_B = self\<lparr>name := new_name\<rparr>
         \<or> (\<exists>c. self_B = self\<lparr>name := new_name, controlnet_method := Some c\<rparr>)"
    using assms(3) by (auto simp: switch_reset_method_def split: if_splits list.splits)
  then have frame: "device self_B = device self" "kwargs self_B = kwargs self"
    "model self_B = model self" "available_models self_B = available_models self"
    "enable_controlnet self_B = enable_controlnet self" "trace self_B = trace self"
    by auto
  let ?s1 = "emit TorchGc (self_B\<lparr>model := None\<rparr>)"
  have "fst (init_model env new_name ?dB (kwargs self) ?s1) = Inl e"
    using assms(5) init_model_fst_cong [of ?s1 self_B env new_name ?dB "kwargs self"]
    by (simp add: emit_def)
  moreover obtain evs1 where
    "snd (init_model env new_name ?dB (kwargs self) ?s1) = ?s1\<lparr>trace := trace ?s1 @ evs1\<rparr>"
    using init_model_snd by blast
  ultimately have try1: "init_model env new_name ?dB (kwargs self) ?s1
      = (Inl e, ?s1\<lparr>trace := trace ?s1 @ evs1\<rparr>)"
    by (metis prod.collapse)
  let ?s2 = "?s1\<lparr>trace := trace ?s1 @ evs1\<rparr>"
  have trB: "switch_try env new_name self_B = (Inl e, ?s2)"
    using try1 assms(4) frame by (simp add: switch_try_def Let_def emit_def)
  let ?s3 = "?s2\<lparr>name := name self, controlnet_method := controlnet_method self\<rparr>"
  have "fst (init_model env (name self) ?dA (kwargs self) ?s3) = Inr b"
    using assms(6) init_model_fst_cong [of ?s3 self env "name self" ?dA "kwargs self"] frame
    by (simp add: emit_def)
  moreover obtain evs2 where
    "snd (init_model env (name self) ?dA (kwargs self) ?s3) = ?s3\<lparr>trace := trace ?s3 @ evs2\<rparr>"
    using init_model_snd by blast
  ultimately have re: "init_model env (name self) ?dA (kwargs self) ?s3
      = (Inr b, ?s3\<lparr>trace := trace ?s3 @ evs2\<rparr>)"
    by (metis prod.collapse)
  have rb: "switch_rollback env (name self) (controlnet_method self) e ?s2
      = (Inl e, ?s3\<lparr>trace := trace ?s3 @ evs2, model := Some b\<rparr>)"
    using re frame by (simp add: switch_rollback_def Let_def emit_def)
  have fin: "?s3\<lparr>trace := trace ?s3 @ evs2, model := Some b\<rparr>
      = self\<lparr>model := Some b, trace := trace self @ (TorchGc # evs1 @ evs2)\<rparr>"
    using B by (auto simp: emit_def)
  have "switch env new_name self
      = (Inl e, self\<lparr>model := Some b, trace := trace self @ (TorchGc # evs1 @ evs2)\<rparr>)"
    using assms(1,2,3) trB rb fin by (simp add: switch_def Let_def)
  then show ?thesis by blast
qed

theorem switch_fail_atomic_witness:
  "''broken'' \<noteq> name mgr_sd_v1
   \<and> map_of (available_models mgr_sd_v1) ''broken'' = Some broken
   \<and> switch_reset_method broken (mgr_sd_v1\<lparr>name := ''broken''\<rparr>)
       = Inr (mgr_sd_v1\<lparr>name := ''broken''\<rparr>)
   \<and> model mgr_sd_v1 = Some (fresh_backend SD ''cuda'' (args0 sd_v1 False None))
   \<and> fst (init_model env0 ''broken'' (switch_mps_device env0 ''broken'' (device mgr_sd_v1))
             (kwargs mgr_sd_v1) (mgr_sd_v1\<lparr>name := ''broken''\<rparr>))
       = Inl (RuntimeError ''out of memory'')
   \<and> fst (init_model env0 (name mgr_sd_v1)
             (switch_mps_device env0 (name mgr_sd_v1) (device mgr_sd_v1))
             (kwargs mgr_sd_v1) mgr_sd_v1)
       = Inr (fresh_backend SD ''cuda'' (args0 sd_v1 False None))
   \<and> (\<exists>evs. switch env0 ''broken'' mgr_sd_v1
          = (Inl (RuntimeError ''out of memory''),
             mgr_sd_v1\<lparr>model := Some (fresh_backend SD ''cuda'' (args0 sd_v1 False None)),
                        trace := trace mgr_sd_v1 @ evs\<rparr>))"
proof -
  have h1: "''broken'' \<noteq> name mgr_sd_v1"
    by (simp add: mgr_sd_v1_def)
  have h2: "map_of (available_models mgr_sd_v1) ''broken'' = Some broken"
    by (simp add: mgr_sd_v1_def catalog0_def)
  have h3: "switch_reset_method broken (mgr_sd_v1\<lparr>name := ''broken''\<rparr>)
       = Inr (mgr_sd_v1\<lparr>name := ''broken''\<rparr>)"
    by (simp add: switch_reset_method_def broken_def)
  have h4: "model mgr_sd_v1 = Some (fresh_backend SD ''cuda'' (args0 sd_v1 False None))"
    by (simp add: mgr_sd_v1_def)
  have h5: "fst (init_model env0 ''broken'' (switch_mps_device env0 ''broken'' (device mgr_sd_v1))
             (kwargs mgr_sd_v1) (mgr_sd_v1\<lparr>name := ''broken''\<rparr>))
       = Inl (RuntimeError ''out of memory'')"
    by (simp add: init_model_def build_kwargs_def Let_def example_defs)
  have h6: "fst (init_model env0 (name mgr_sd_v1)
             (switch_mps_device env0 (name mgr_sd_v1) (device mgr_sd_v1))
             (kwargs mgr_sd_v1) mgr_sd_v1)
       = Inr (fresh_backend SD ''cuda'' (args0 sd_v1 False None))"
    by (simp add: init_model_def build_kwargs_def Let_def example_defs)
  from switch_fail_atomic [OF h1 h2 h3 h4 h5 h6] h1 h2 h3 h4 h5 h6 show ?thesis
    by blast
qed

text \<open>
  A name that is not in the catalog: line 99 has already overwritten \<open>self.name\<close> when the
  lookup of line 102 raises \<open>KeyError\<close>, and nothing restores it.
\<close>

lemma switch_absent_name:
  assumes "new_name \<noteq> name self" and "map_of (available_models self) new_name = None"
  shows "switch env new_name self = (Inl (KeyError new_name), self\<lparr>name := new_name\<rparr>)"
  using assms by (simp add: switch_def Let_def)

text \<open>
  C2, at a failing input. With the catalog of the example and the manager on \<open>sd-v1\<close>,
  \<open>switch('nope')\<close> raises \<open>KeyError\<close> at line 102, before the \<open>try\<close> block is entered,
  and not the \<open>NotImplementedError\<close> of \<open>init_model\<close>; the manager is left with
  \<open>name = 'nope'\<close>, a name that is not in the catalog.
\<close>

theorem switch_unknown_name_corrupts:
  "switch env0 ''nope'' mgr_sd_v1 = (Inl (KeyError ''nope''), mgr_sd_v1\<lparr>name := ''nope''\<rparr>)"
  by (simp add: switch_def mgr_sd_v1_def catalog0_def)

text \<open>A \<open>switch\<close> whose \<open>try\<close> block succeeds keeps the name and method it was entered with.\<close>

lemma switch_try_Inr:
  assumes "switch_try env n s = (Inr u, s')"
  shows "name s' = name s \<and> controlnet_method s' = controlnet_method s
         \<and> available_models s' = available_models s"
proof -
  from assms obtain b0 where b0: "model s = Some b0"
    by (auto simp: switch_try_def split: option.splits)
  let ?s1 = "emit TorchGc (s\<lparr>model := None\<rparr>)"
  let ?r = "init_model env n (switch_mps_device env n (device ?s1)) (kwargs ?s1) ?s1"
  obtain evs where "snd ?r = ?s1\<lparr>trace := trace ?s1 @ evs\<rparr>"
    using init_model_snd by blast
  moreover from assms b0 obtain b where "s' = (snd ?r)\<lparr>model := Some b\<rparr>"
    by (auto simp: switch_try_def Let_def split: prod.splits sum.splits)
  ultimately show ?thesis by (simp add: emit_def)
qed

text \<open>
  C4. First-compatible-method defaulting. At construction: when the options pin no method
  and the descriptor of \<open>n\<close> supports ControlNet, the manager that the constructor returns
  has the first entry of that descriptor's \<open>controlnets\<close> as its method. On \<open>switch\<close>:
  when the target is another catalog descriptor that supports ControlNet and the current
  method is not in its \<open>controlnets\<close>, the manager that a successful \<open>switch\<close> leaves has
  the target's name and the first entry of its \<open>controlnets\<close> as its method.
\<close>

theorem first_method_default:
  "(kw_controlnet_method kw = None \<and> ModelManager_init env n d kw = Inr m
      \<and> map_of (available_models m) n = Some info \<and> support_controlnet info
     \<longrightarrow> (\<exists>c cs. controlnets info = c # cs \<and> controlnet_method m = Some c))
   \<and> (new_name \<noteq> name self \<and> map_of (available_models self) new_name = Some info'
        \<and> support_controlnet info' \<and> not_in (controlnet_method self) (controlnets info')
        \<and> switch env new_name self = (Inr u, self')
     \<longrightarrow> (\<exists>c cs. controlnets info' = c # cs \<and> controlnet_method self' = Some c
                  \<and> name self' = new_name))"
proof (intro conjI impI)
  assume a: "kw_controlnet_method kw = None \<and> ModelManager_init env n d kw = Inr m
      \<and> map_of (available_models m) n = Some info \<and> support_controlnet info"
  let ?cat = "fold (\<lambda>it d. AList.update (info_name it) it d) (download_scan_models env) []"
  let ?s2 = "\<lambda>cm. \<lparr>name = n, device = d, kwargs = kw, available_models = ?cat,
       enable_controlnet = (case kw_enable_controlnet kw of None \<Rightarrow> False | Some b \<Rightarrow> b),
       controlnet_method = cm, model = None, trace = []\<rparr>"
  from a obtain cm b s4 where
    cm: "(case map_of ?cat n of
            None \<Rightarrow> Inr None
          | Some info \<Rightarrow>
              if support_controlnet info then
                (case controlnets info of [] \<Rightarrow> Inl IndexError | c # _ \<Rightarrow> Inr (Some c))
              else Inr None) = Inr cm"
    and im: "init_model env n d kw (?s2 cm) = (Inr b, s4)" and m: "m = s4\<lparr>model := Some b\<rparr>"
    by (auto simp: ModelManager_init_def scan_models_def Let_def
        split: sum.splits prod.splits)
  from init_model_Inr_trace [OF im] m have "available_models m = ?cat"
    and mm: "controlnet_method m = cm"
    by auto
  with a have "map_of ?cat n = Some info" by simp
  with cm a mm show "\<exists>c cs. controlnets info = c # cs \<and> controlnet_method m = Some c"
    by (auto split: list.splits)
next
  assume a: "new_name \<noteq> name self \<and> map_of (available_models self) new_name = Some info'
        \<and> support_controlnet info' \<and> not_in (controlnet_method self) (controlnets info')
        \<and> switch env new_name self = (Inr u, self')"
  then obtain c cs where c: "controlnets info' = c # cs"
    by (cases "controlnets info'") (auto simp: switch_def switch_reset_method_def Let_def)
  with a have r: "switch_reset_method info' (self\<lparr>name := new_name\<rparr>)
      = Inr (self\<lparr>name := new_name, controlnet_method := Some c\<rparr>)"
    by (simp add: switch_reset_method_def)
  let ?s2 = "self\<lparr>name := new_name, controlnet_method := Some c\<rparr>"
  have "switch_try env new_name ?s2 = (Inr u, self')"
  proof (cases "switch_try env new_name ?s2")
    case (Pair r1 s3)
    with a r show ?thesis
      by (cases r1) (auto simp: switch_def Let_def switch_rollback_def split: prod.splits sum.splits)
  qed
  from switch_try_Inr [OF this] c
  show "\<exists>c cs. controlnets info' = c # cs \<and> controlnet_method self' = Some c
                  \<and> name self' = new_name"
    by simp
qed

theorem first_method_default_witness:
  "(kw_controlnet_method (kwargs0\<lparr>kw_enable_controlnet := Some True\<rparr>) = None
    \<and> ModelManager_init env0 ''sdxl'' ''cuda'' (kwargs0\<lparr>kw_enable_controlnet := Some True\<rparr>)
        = Inr mgr_sdxl
    \<and> map_of (available_models mgr_sdxl) ''sdxl'' = Some sdxl \<and> support_controlnet sdxl)
   \<and> controlnet_method mgr_sdxl = Some ''canny''
   \<and> (''sdxl'' \<noteq> name mgr_sd_v1 \<and> map_of (available_models mgr_sd_v1) ''sdxl'' = Some sdxl
      \<and> support_controlnet sdxl \<and> not_in (controlnet_method mgr_sd_v1) (controlnets sdxl)
      \<and> switch env0 ''sdxl'' mgr_sd_v1 = (Inr (), snd (switch env0 ''sdxl'' mgr_sd_v1)))
   \<and> controlnet_method (snd (switch env0 ''sdxl'' mgr_sd_v1)) = Some ''canny''
   \<and> name (snd (switch env0 ''sdxl'' mgr_sd_v1)) = ''sdxl''"
proof -
  let ?kw = "kwargs0\<lparr>kw_enable_controlnet := Some True\<rparr>"
  let ?s = "snd (switch env0 ''sdxl'' mgr_sd_v1)"
  have h1: "kw_controlnet_method ?kw = None
    \<and> ModelManager_init env0 ''sdxl'' ''cuda'' ?kw = Inr mgr_sdxl
    \<and> map_of (available_models mgr_sdxl) ''sdxl'' = Some sdxl \<and> support_controlnet sdxl"
    by (simp add: ModelManager_init_def scan_models_def init_model_def build_kwargs_def
        emit_def Let_def example_defs)
  have h2: "''sdxl'' \<noteq> name mgr_sd_v1 \<and> map_of (available_models mgr_sd_v1) ''sdxl'' = Some sdxl
      \<and> support_controlnet sdxl \<and> not_in (controlnet_method mgr_sd_v1) (controlnets sdxl)
      \<and> switch env0 ''sdxl'' mgr_sd_v1 = (Inr (), ?s)"
    by (simp add: switch_def switch_reset_method_def switch_try_def init_model_def
        build_kwargs_def not_in_def emit_def Let_def example_defs)
  have c: "controlnets sdxl = [''canny'', ''depth'']"
    by (simp add: sdxl_def)
  from first_method_default [of ?kw env0 "''sdxl''" "''cuda''" mgr_sdxl sdxl
      "''sdxl''" mgr_sd_v1 sdxl "()" ?s] h1 h2 c
  show ?thesis by simp
qed

section \<open>The reconciliation steps\<close>

text \<open>
  What each of the three steps leaves alone, and the kind of collaborator calls it makes:
  the ControlNet step only constructs a model or switches the method, the tuning step only
  enables or disables the tuning, the adapter step only loads, enables or disables the
  adapter. The tuning step keeps the adapter state of the held model.
\<close>

lemma freeu_frame:
  assumes "enable_disable_freeu c s = (r, s')"
  shows "name s' = name s \<and> available_models s' = available_models s
       \<and> enable_controlnet s' = enable_controlnet s
       \<and> controlnet_method s' = controlnet_method s
       \<and> device s' = device s \<and> kwargs s' = kwargs s"
  using assms
  by (auto simp: enable_disable_freeu_def Let_def emit_def split: option.splits if_splits)

lemma freeu_trace:
  assumes "enable_disable_freeu c s = (r, s')"
  shows "\<exists>evs. trace s' = trace s @ evs \<and> list_all is_tuning_event evs"
  using assms
  by (auto simp: enable_disable_freeu_def Let_def emit_def split: option.splits if_splits)


lemma lcm_frame:
  assumes "enable_disable_lcm_lora env c s = (r, s')"
  shows "name s' = name s \<and> available_models s' = available_models s
       \<and> enable_controlnet s' = enable_controlnet s
       \<and> controlnet_method s' = controlnet_method s
       \<and> device s' = device s \<and> kwargs s' = kwargs s"
  using assms
  by (auto simp: enable_disable_lcm_lora_def Let_def emit_def
      split: option.splits if_splits sum.splits)

lemma lcm_trace:
  assumes "enable_disable_lcm_lora env c s = (r, s')"
  shows "\<exists>evs. trace s' = trace s @ evs \<and> list_all is_adapter_event evs"
  using assms
  by (auto simp: enable_disable_lcm_lora_def Let_def emit_def
      split: option.splits if_splits sum.splits)

lemma scm_frame:
  assumes "switch_controlnet_method env c s = (r, s')"
  shows "name s' = name s \<and> available_models s' = available_models s
       \<and> device s' = device s \<and> kwargs s' = kwargs s"
proof -
  have *: "\<And>n d kw s0 x s1. init_model env n d kw s0 = (x, s1) \<Longrightarrow>
     name s1 = name s0 \<and> available_models s1 = available_models s0
       \<and> device s1 = device s0 \<and> kwargs s1 = kwargs s0"
  proof -
    fix n d kw s0 x s1
    assume a: "init_model env n d kw s0 = (x, s1)"
    obtain evs where "snd (init_model env n d kw s0) = s0\<lparr>trace := trace s0 @ evs\<rparr>"
      using init_model_snd by blast
    with a show "name s1 = name s0 \<and> available_models s1 = available_models s0
       \<and> device s1 = device s0 \<and> kwargs s1 = kwargs s0"
      by simp
  qed
  show ?thesis
    using assms
    by (auto simp: switch_controlnet_method_def Let_def emit_def
        split: option.splits if_splits prod.splits sum.splits dest!: *)
qed

lemma scm_trace:
  assumes "switch_controlnet_method env c s = (r, s')"
  shows "\<exists>evs. trace s' = trace s @ evs \<and> list_all is_aux_event evs"
proof -
  have *: "\<And>n d kw s0 x s1. init_model env n d kw s0 = (x, s1) \<Longrightarrow>
     \<exists>evs. trace s1 = trace s0 @ evs \<and> list_all is_aux_event evs"
  proof -
    fix n d kw s0 x s1
    assume a: "init_model env n d kw s0 = (x, s1)"
    obtain evs where e: "snd (init_model env n d kw s0) = s0\<lparr>trace := trace s0 @ evs\<rparr>"
      "list_all is_construct evs"
      using init_model_snd by blast
    have "list_all is_aux_event evs"
      using e(2) by (induction evs) (auto elim: is_construct.elims)
    with a e(1) show "\<exists>evs. trace s1 = trace s0 @ evs \<and> list_all is_aux_event evs"
      by auto
  qed
  show ?thesis
    using assms
    by (auto simp: switch_controlnet_method_def Let_def emit_def
        split: option.splits if_splits prod.splits sum.splits dest!: *)
qed

text \<open>
  The flag branch when the options already hold \<open>pipe_components\<close>: the rebuild call of
  lines 151-156 raises \<open>TypeError\<close>, the flag and the method are those of the request and
  the old model is still held.
\<close>

lemma switch_controlnet_method_duplicate_keyword:
  assumes "map_of (available_models self) (name self) = Some info"
    and "support_controlnet info"
    and "\<not> (enable_controlnet self \<and> truthy (req_controlnet_method config)
             \<and> controlnet_method self \<noteq> req_controlnet_method config)"
    and "enable_controlnet self \<noteq> req_enable_controlnet config"
    and "model self = Some b"
    and "kw_pipe_components (kwargs self) = Some pc"
  shows "switch_controlnet_method env config self
           = (Inl (TypeError ''pipe_components''),
              self\<lparr>enable_controlnet := req_enable_controlnet config,
                    controlnet_method := req_controlnet_method config\<rparr>)"
  using assms by (auto simp: switch_controlnet_method_def Let_def)

text \<open>
  The tuning step and the adapter step keep the method the held model uses, and none of
  their calls is a call of the ControlNet step.
\<close>

lemma freeu_model_method:
  assumes "enable_disable_freeu c s = (r, s')" and "model s = Some b"
  shows "\<exists>b'. model s' = Some b'
            \<and> backend_controlnet_method b' = backend_controlnet_method b"
  using assms
  by (auto simp: enable_disable_freeu_def Let_def emit_def enable_freeu_def disable_freeu_def
      split: option.splits if_splits)

lemma lcm_model_method:
  assumes "enable_disable_lcm_lora env c s = (r, s')" and "model s = Some b"
  shows "\<exists>b'. model s' = Some b'
            \<and> backend_controlnet_method b' = backend_controlnet_method b"
  using assms
  by (auto simp: enable_disable_lcm_lora_def Let_def emit_def load_lora_weights_def
      enable_lora_def disable_lora_def split: option.splits if_splits sum.splits)

lemma tuning_not_aux: "list_all is_tuning_event evs \<Longrightarrow> \<not> list_ex is_aux_event evs"
  by (induction evs) (auto elim: is_tuning_event.elims)

lemma adapter_not_aux: "list_all is_adapter_event evs \<Longrightarrow> \<not> list_ex is_aux_event evs"
  by (induction evs) (auto elim: is_adapter_event.elims)

section \<open>Properties of \<open>__call__\<close>\<close>

lemma call_shapeI:
  assumes "trace s' = trace s @ aux @ tun @ ada @ fin"
    and "list_all is_aux_event aux" and "list_all is_tuning_event tun"
    and "list_all is_adapter_event ada"
    and "fin = [] \<or> fin = [ModelCall i m c]"
  shows "\<exists>aux tun ada fin.
       trace s' = trace s @ aux @ tun @ ada @ fin
     \<and> list_all is_aux_event aux \<and> list_all is_tuning_event tun
     \<and> list_all is_adapter_event ada
     \<and> (fin = [] \<or> fin = [ModelCall i m c])"
  using assms by blast

text \<open>
  C6. Order of \<open>__call__\<close>. Whatever the outcome, the collaborator calls of one \<open>__call__\<close>
  are, in this order: calls of the ControlNet step, calls of the tuning step, calls of the
  adapter step, and then at most the one call of the model itself. When \<open>__call__\<close>
  returns \<open>r\<close>, the three steps ran in that order, each on the manager the previous one
  left and each returning normally, the model called is the one held after the third step,
  and \<open>r\<close> is that model's result passed through \<open>astype(np.uint8)\<close>.
\<close>

theorem call_order:
  "(\<exists>aux tun ada fin.
       trace (snd (call env image' mask' config self)) = trace self @ aux @ tun @ ada @ fin
     \<and> list_all is_aux_event aux \<and> list_all is_tuning_event tun
     \<and> list_all is_adapter_event ada
     \<and> (fin = [] \<or> fin = [ModelCall image' mask' config]))
   \<and> (\<forall>r self'. call env image' mask' config self = (Inr r, self') \<longrightarrow>
        (\<exists>s1 s2 s3 b out.
            switch_controlnet_method env config self = (Inr (), s1)
          \<and> enable_disable_freeu config s1 = (Inr (), s2)
          \<and> enable_disable_lcm_lora env config s2 = (Inr (), s3)
          \<and> model s3 = Some b
          \<and> model_call env b image' mask' config = Inr out
          \<and> r = astype_uint8 env out
          \<and> self' = emit (ModelCall image' mask' config) s3))"
proof (rule conjI)
  obtain r1 s1 where 1: "switch_controlnet_method env config self = (r1, s1)"
    by (cases "switch_controlnet_method env config self")
  obtain aux where aux: "trace s1 = trace self @ aux" "list_all is_aux_event aux"
    using scm_trace [OF 1] by blast
  show "\<exists>aux tun ada fin.
       trace (snd (call env image' mask' config self)) = trace self @ aux @ tun @ ada @ fin
     \<and> list_all is_aux_event aux \<and> list_all is_tuning_event tun
     \<and> list_all is_adapter_event ada
     \<and> (fin = [] \<or> fin = [ModelCall image' mask' config])"
  proof (cases r1)
    case (Inl e)
    with 1 aux have "trace (snd (call env image' mask' config self)) = trace self @ aux @ [] @ [] @ []"
      by (simp add: call_def)
    with aux(2) show ?thesis
      by (intro call_shapeI [of _ _ aux "[]" "[]" "[]"]) simp_all
  next
    case (Inr u1)
    obtain r2 s2 where 2: "enable_disable_freeu config s1 = (r2, s2)"
      by (cases "enable_disable_freeu config s1")
    obtain tun where tun: "trace s2 = trace s1 @ tun" "list_all is_tuning_event tun"
      using freeu_trace [OF 2] by blast
    show ?thesis
    proof (cases r2)
      case (Inl e)
      with 1 2 Inr aux tun
      have "trace (snd (call env image' mask' config self)) = trace self @ aux @ tun @ [] @ []"
        by (simp add: call_def)
      with aux(2) tun(2) show ?thesis
        by (intro call_shapeI [of _ _ aux tun "[]" "[]"]) simp_all
    next
      case u2: (Inr u2)
      obtain r3 s3 where 3: "enable_disable_lcm_lora env config s2 = (r3, s3)"
        by (cases "enable_disable_lcm_lora env config s2")
      obtain ada where ada: "trace s3 = trace s2 @ ada" "list_all is_adapter_event ada"
        using lcm_trace [OF 3] by blast
      show ?thesis
      proof (cases r3)
        case (Inl e)
        with 1 2 3 Inr u2 aux tun ada
        have "trace (snd (call env image' mask' config self)) = trace self @ aux @ tun @ ada @ []"
          by (simp add: call_def)
        with aux(2) tun(2) ada(2) show ?thesis
          by (intro call_shapeI [of _ _ aux tun ada "[]"]) simp_all
      next
        case u3: (Inr u3)
        have "trace (snd (call env image' mask' config self)) = trace self @ aux @ tun @ ada @ []
            \<or> trace (snd (call env image' mask' config self))
               = trace self @ aux @ tun @ ada @ [ModelCall image' mask' config]"
          using 1 2 3 Inr u2 u3 aux tun ada
          by (auto simp: call_def emit_def split: option.splits sum.splits)
        then show ?thesis
        proof
          assume "trace (snd (call env image' mask' config self)) = trace self @ aux @ tun @ ada @ []"
          with aux(2) tun(2) ada(2) show ?thesis
            by (intro call_shapeI [of _ _ aux tun ada "[]"]) simp_all
        next
          assume "trace (snd (call env image' mask' config self))
               = trace self @ aux @ tun @ ada @ [ModelCall image' mask' config]"
          with aux(2) tun(2) ada(2) show ?thesis
            by (intro call_shapeI [of _ _ aux tun ada "[ModelCall image' mask' config]"]) simp_all
        qed
      qed
    qed
  qed
next
  show "\<forall>r self'. call env image' mask' config self = (Inr r, self') \<longrightarrow>
        (\<exists>s1 s2 s3 b out.
            switch_controlnet_method env config self = (Inr (), s1)
          \<and> enable_disable_freeu config s1 = (Inr (), s2)
          \<and> enable_disable_lcm_lora env config s2 = (Inr (), s3)
          \<and> model s3 = Some b
          \<and> model_call env b image' mask' config = Inr out
          \<and> r = astype_uint8 env out
          \<and> self' = emit (ModelCall image' mask' config) s3)"
    by (auto simp: call_def split: prod.splits sum.splits option.splits)
qed

theorem call_order_witness:
  "call env0 [300, 2] [0, 255] request_depth mgr_sdxl
     = (Inr [44, 2], snd (call env0 [300, 2] [0, 255] request_depth mgr_sdxl))
   \<and> (\<exists>s1 s2 s3 b out.
          switch_controlnet_method env0 request_depth mgr_sdxl = (Inr (), s1)
        \<and> enable_disable_freeu request_depth s1 = (Inr (), s2)
        \<and> enable_disable_lcm_lora env0 request_depth s2 = (Inr (), s3)
        \<and> model s3 = Some b
        \<and> model_call env0 b [300, 2] [0, 255] request_depth = Inr out
        \<and> [44, 2] = astype_uint8 env0 out
        \<and> snd (call env0 [300, 2] [0, 255] request_depth mgr_sdxl)
            = emit (ModelCall [300, 2] [0, 255] request_depth) s3)"
proof -
  have h: "call env0 [300, 2] [0, 255] request_depth mgr_sdxl
     = (Inr [44, 2], snd (call env0 [300, 2] [0, 255] request_depth mgr_sdxl))"
    by (simp add: step_defs example_defs)
  from call_order [of env0 "[300, 2]" "[0, 255]" request_depth mgr_sdxl] h
  show ?thesis by blast
qed

text \<open>
  C10 as stated (for every invoke whose request names another method and asks for the
  opposite flag while ControlNet is enabled) fails under a descriptor without ControlNet.
  After \<open>switch('lama')\<close> the manager still has ControlNet enabled and the method \<open>canny\<close>;
  a request that names \<open>depth\<close> and asks for ControlNet off meets every condition of the
  claim, and the ControlNet step returns at line 126: the whole \<open>__call__\<close> changes
  nothing but the trace, which gains the call of the model.
\<close>

theorem method_change_precedes_flag_change_counterexample:
  "switch env0 ''lama'' mgr_sdxl = (Inr (), mgr_lama_stale)
   \<and> enable_controlnet mgr_lama_stale
   \<and> req_controlnet_method (request0\<lparr>req_controlnet_method := Some ''depth''\<rparr>) = Some ''depth''
   \<and> controlnet_method mgr_lama_stale = Some ''canny''
   \<and> req_enable_controlnet (request0\<lparr>req_controlnet_method := Some ''depth''\<rparr>)
       \<noteq> enable_controlnet mgr_lama_stale
   \<and> switch_controlnet_method env0 (request0\<lparr>req_controlnet_method := Some ''depth''\<rparr>)
         mgr_lama_stale
       = (Inr (), mgr_lama_stale)
   \<and> call env0 [1] [255] (request0\<lparr>req_controlnet_method := Some ''depth''\<rparr>) mgr_lama_stale
       = (Inr [1],
          emit (ModelCall [1] [255] (request0\<lparr>req_controlnet_method := Some ''depth''\<rparr>))
            mgr_lama_stale)"
  by (simp add: mgr_lama_stale_reached)
     (simp add: step_defs example_defs)

text \<open>
  C10, as amended. Branch precedence in the ControlNet step, for a manager that holds a
  model and whose current descriptor supports ControlNet. ControlNet is enabled, the
  request names a method different from the current one and asks for the opposite flag.
  Then the step only switches the method on the held model (one \<open>SwitchControlnetMethod\<close>
  call). After the whole \<open>__call__\<close>, whatever its outcome, the method of the manager and
  of the held model is the requested one, the flag \<open>enable_controlnet\<close> is what it was,
  and the calls made are that method switch followed by no other call of the ControlNet
  step: no second switch and no model constructed.
\<close>

theorem method_change_precedes_flag_change:
  assumes "map_of (available_models self) (name self) = Some info"
    and "support_controlnet info"
    and "enable_controlnet self"
    and "req_controlnet_method config = Some cm" and "cm \<noteq> []"
    and "controlnet_method self \<noteq> Some cm"
    and "req_enable_controlnet config \<noteq> enable_controlnet self"
    and "model self = Some b"
  shows "switch_controlnet_method env config self
           = (Inr (), self\<lparr>controlnet_method := Some cm,
                             model := Some (model_switch_controlnet_method (Some cm) b),
                             trace := trace self @ [SwitchControlnetMethod (Some cm)]\<rparr>)
       \<and> controlnet_method (snd (call env image' mask' config self)) = Some cm
       \<and> enable_controlnet (snd (call env image' mask' config self)) = enable_controlnet self
       \<and> (\<exists>b'. model (snd (call env image' mask' config self)) = Some b'
                \<and> backend_controlnet_method b' = Some cm)
       \<and> (\<exists>evs. trace (snd (call env image' mask' config self))
                   = trace self @ SwitchControlnetMethod (Some cm) # evs
                \<and> \<not> list_ex is_aux_event evs)"
proof -
  let ?s1 = "self\<lparr>controlnet_method := Some cm,
                   model := Some (model_switch_controlnet_method (Some cm) b),
                   trace := trace self @ [SwitchControlnetMethod (Some cm)]\<rparr>"
  let ?res = "snd (call env image' mask' config self)"
  have 1: "switch_controlnet_method env config self = (Inr (), ?s1)"
    using assms by (simp add: switch_controlnet_method_def truthy_def Let_def emit_def)
  have m1: "model ?s1 = Some (model_switch_controlnet_method (Some cm) b)" by simp
  obtain r2 s2 where 2: "enable_disable_freeu config ?s1 = (r2, s2)"
    by (cases "enable_disable_freeu config ?s1")
  obtain tun where tun: "trace s2 = trace ?s1 @ tun" "list_all is_tuning_event tun"
    using freeu_trace [OF 2] by blast
  have f2: "enable_controlnet s2 = enable_controlnet self" "controlnet_method s2 = Some cm"
    using freeu_frame [OF 2] by simp_all
  obtain b2 where b2: "model s2 = Some b2" "backend_controlnet_method b2 = Some cm"
    using freeu_model_method [OF 2 m1] by (auto simp: model_switch_controlnet_method_def)
  note nt = tuning_not_aux [OF tun(2)]
  have "controlnet_method ?res = Some cm
       \<and> enable_controlnet ?res = enable_controlnet self
       \<and> (\<exists>b'. model ?res = Some b' \<and> backend_controlnet_method b' = Some cm)
       \<and> (\<exists>evs. trace ?res = trace self @ SwitchControlnetMethod (Some cm) # evs
                \<and> \<not> list_ex is_aux_event evs)"
  proof (cases r2)
    case (Inl e)
    with 1 2 have "?res = s2"
      by (simp add: call_def)
    with f2 b2 tun(1) nt show ?thesis by simp
  next
    case (Inr u2)
    obtain r3 s3 where 3: "enable_disable_lcm_lora env config s2 = (r3, s3)"
      by (cases "enable_disable_lcm_lora env config s2")
    obtain ada where ada: "trace s3 = trace s2 @ ada" "list_all is_adapter_event ada"
      using lcm_trace [OF 3] by blast
    have f3: "enable_controlnet s3 = enable_controlnet self" "controlnet_method s3 = Some cm"
      using lcm_frame [OF 3] f2 by simp_all
    obtain b3 where b3: "model s3 = Some b3" "backend_controlnet_method b3 = Some cm"
      using lcm_model_method [OF 3 b2(1)] b2(2) by auto
    note na = adapter_not_aux [OF ada(2)]
    have "?res = s3 \<or> ?res = emit (ModelCall image' mask' config) s3"
      using 1 2 3 Inr by (auto simp: call_def split: sum.splits option.splits)
    then show ?thesis
      using f3 b3 tun(1) ada(1) nt na by (auto simp: emit_def)
  qed
  with 1 show ?thesis by simp
qed

theorem method_change_precedes_flag_change_witness:
  "map_of (available_models mgr_sdxl) (name mgr_sdxl) = Some sdxl
   \<and> support_controlnet sdxl \<and> enable_controlnet mgr_sdxl
   \<and> req_controlnet_method (request0\<lparr>req_controlnet_method := Some ''depth''\<rparr>) = Some ''depth''
   \<and> ''depth'' \<noteq> [] \<and> controlnet_method mgr_sdxl \<noteq> Some ''depth''
   \<and> req_enable_controlnet (request0\<lparr>req_controlnet_method := Some ''depth''\<rparr>)
       \<noteq> enable_controlnet mgr_sdxl
   \<and> model mgr_sdxl = Some (fresh_backend ControlNet ''cuda'' (args0 sdxl True (Some ''canny'')))
   \<and> switch_controlnet_method env0 (request0\<lparr>req_controlnet_method := Some ''depth''\<rparr>) mgr_sdxl
       = (Inr (),
          mgr_sdxl\<lparr>controlnet_method := Some ''depth'',
                    model := Some (model_switch_controlnet_method (Some ''depth'')
                       (fresh_backend ControlNet ''cuda'' (args0 sdxl True (Some ''canny'')))),
                    trace := trace mgr_sdxl @ [SwitchControlnetMethod (Some ''depth'')]\<rparr>)
   \<and> controlnet_method (snd (call env0 [1] [255]
         (request0\<lparr>req_controlnet_method := Some ''depth''\<rparr>) mgr_sdxl))
       = Some ''depth''
   \<and> enable_controlnet (snd (call env0 [1] [255]
         (request0\<lparr>req_controlnet_method := Some ''depth''\<rparr>) mgr_sdxl))
       = enable_controlnet mgr_sdxl
   \<and> (\<exists>b'. model (snd (call env0 [1] [255]
                  (request0\<lparr>req_controlnet_method := Some ''depth''\<rparr>) mgr_sdxl)) = Some b'
            \<and> backend_controlnet_method b' = Some ''depth'')
   \<and> (\<exists>evs. trace (snd (call env0 [1] [255]
                  (request0\<lparr>req_controlnet_method := Some ''depth''\<rparr>) mgr_sdxl))
              = trace mgr_sdxl @ SwitchControlnetMethod (Some ''depth'') # evs
            \<and> \<not> list_ex is_aux_event evs)"
proof -
  let ?c = "request0\<lparr>req_controlnet_method := Some ''depth''\<rparr>"
  have h1: "map_of (available_models mgr_sdxl) (name mgr_sdxl) = Some sdxl"
    by (simp add: mgr_sdxl_def catalog0_def)
  have h2: "support_controlnet sdxl" by (simp add: sdxl_def)
  have h3: "enable_controlnet mgr_sdxl" by (simp add: mgr_sdxl_def)
  have h4: "req_controlnet_method ?c = Some ''depth''" by simp
  have h5: "''depth'' \<noteq> []" by simp
  have h6: "controlnet_method mgr_sdxl \<noteq> Some ''depth''" by (simp add: mgr_sdxl_def)
  have h7: "req_enable_controlnet ?c \<noteq> enable_controlnet mgr_sdxl"
    by (simp add: mgr_sdxl_def request0_def)
  have h8: "model mgr_sdxl
      = Some (fresh_backend ControlNet ''cuda'' (args0 sdxl True (Some ''canny'')))"
    by (simp add: mgr_sdxl_def)
  from method_change_precedes_flag_change [OF h1 h2 h3 h4 h5 h6 h7 h8, of env0 "[1]" "[255]"]
    h1 h2 h3 h4 h5 h6 h7 h8
  show ?thesis by simp
qed

section \<open>Tuning\<close>

text \<open>
  C8. The tuning step on a model whose device is not \<open>mps\<close> and whose descriptor supports
  the tuning. Enabling with the parameters of \<open>c1\<close> puts exactly these in effect; enabling
  again with identical parameters leaves the held model as it is after the first time;
  disabling returns the model to the untuned baseline; and after enable, disable, enable
  with the parameters of \<open>c2\<close>, exactly those of \<open>c2\<close> are in effect.
\<close>

theorem freeu_idempotent_last_write_wins:
  assumes "model self = Some b" and "backend_device b \<noteq> ''mps''"
    and "map_of (available_models self) (name self) = Some info" and "support_freeu info"
    and "sd_freeu c1" and "sd_freeu c1'" and "sd_freeu_config c1' = sd_freeu_config c1"
    and "sd_freeu c2" and "\<not> sd_freeu c_off"
  shows "model (snd (enable_disable_freeu c1 self)) = Some (b\<lparr>freeu := Some (sd_freeu_config c1)\<rparr>)
       \<and> model (snd (enable_disable_freeu c1' (snd (enable_disable_freeu c1 self))))
           = model (snd (enable_disable_freeu c1 self))
       \<and> model (snd (enable_disable_freeu c_off (snd (enable_disable_freeu c1 self))))
           = Some (b\<lparr>freeu := None\<rparr>)
       \<and> model (snd (enable_disable_freeu c2
                  (snd (enable_disable_freeu c_off (snd (enable_disable_freeu c1 self))))))
           = Some (b\<lparr>freeu := Some (sd_freeu_config c2)\<rparr>)"
  using assms
  by (simp add: enable_disable_freeu_def enable_freeu_def disable_freeu_def emit_def Let_def)

theorem freeu_idempotent_last_write_wins_witness:
  "model mgr_sd_v1 = Some (fresh_backend SD ''cuda'' (args0 sd_v1 False None))
   \<and> backend_device (fresh_backend SD ''cuda'' (args0 sd_v1 False None)) \<noteq> ''mps''
   \<and> map_of (available_models mgr_sd_v1) (name mgr_sd_v1) = Some sd_v1
   \<and> support_freeu sd_v1
   \<and> sd_freeu request_depth
   \<and> sd_freeu_config request_depth = sd_freeu_config request_depth
   \<and> sd_freeu (request_depth\<lparr>sd_freeu_config := \<lparr>s1 = 0.6, s2 = 0.4, b1 = 1.1, b2 = 1.2\<rparr>\<rparr>)
   \<and> \<not> sd_freeu request0
   \<and> model (snd (enable_disable_freeu request_depth (snd (enable_disable_freeu request_depth mgr_sd_v1))))
       = model (snd (enable_disable_freeu request_depth mgr_sd_v1))
   \<and> model (snd (enable_disable_freeu request0 (snd (enable_disable_freeu request_depth mgr_sd_v1))))
       = Some ((fresh_backend SD ''cuda'' (args0 sd_v1 False None))\<lparr>freeu := None\<rparr>)
   \<and> model (snd (enable_disable_freeu
              (request_depth\<lparr>sd_freeu_config := \<lparr>s1 = 0.6, s2 = 0.4, b1 = 1.1, b2 = 1.2\<rparr>\<rparr>)
              (snd (enable_disable_freeu request0
                 (snd (enable_disable_freeu request_depth mgr_sd_v1))))))
       = Some ((fresh_backend SD ''cuda'' (args0 sd_v1 False None))
                \<lparr>freeu := Some \<lparr>s1 = 0.6, s2 = 0.4, b1 = 1.1, b2 = 1.2\<rparr>\<rparr>)"
proof -
  let ?b = "fresh_backend SD ''cuda'' (args0 sd_v1 False None)"
  let ?c2 = "request_depth\<lparr>sd_freeu_config := \<lparr>s1 = 0.6, s2 = 0.4, b1 = 1.1, b2 = 1.2\<rparr>\<rparr>"
  have h1: "model mgr_sd_v1 = Some ?b" by (simp add: mgr_sd_v1_def)
  have h2: "backend_device ?b \<noteq> ''mps''" by (simp add: fresh_backend_def)
  have h3: "map_of (available_models mgr_sd_v1) (name mgr_sd_v1) = Some sd_v1"
    by (simp add: mgr_sd_v1_def catalog0_def)
  have h4: "support_freeu sd_v1" by (simp add: sd_v1_def)
  have h5: "sd_freeu request_depth" by (simp add: request_depth_def)
  have h6: "sd_freeu_config request_depth = sd_freeu_config request_depth" by simp
  have h7: "sd_freeu ?c2" by (simp add: request_depth_def)
  have h8: "\<not> sd_freeu request0" by (simp add: request0_def)
  from freeu_idempotent_last_write_wins [OF h1 h2 h3 h4 h5 h5 h6 h7 h8]
    h1 h2 h3 h4 h5 h6 h7 h8
  show ?thesis by simp
qed

section \<open>The method invariant\<close>

lemma method_listed_if_supported_cong:
  assumes "name s' = name s" and "available_models s' = available_models s"
    and "controlnet_method s' = controlnet_method s"
  shows "method_listed_if_supported s' = method_listed_if_supported s"
  using assms by (auto simp: method_listed_if_supported_def split: option.splits)

lemma switch_try_frame:
  assumes "switch_try env n s = (r, s')"
  shows "name s' = name s \<and> controlnet_method s' = controlnet_method s
         \<and> available_models s' = available_models s"
  using assms
  by (auto simp: switch_try_def Let_def emit_def split: option.splits prod.splits sum.splits
      dest!: init_model_frame)

lemma switch_rollback_frame:
  assumes "switch_rollback env old_name old_method e s = (r, s')"
  shows "name s' = old_name \<and> controlnet_method s' = old_method
         \<and> available_models s' = available_models s"
  using assms
  by (auto simp: switch_rollback_def Let_def split: prod.splits sum.splits
      dest!: init_model_frame)

lemma switch_keeps_invariant:
  assumes inv: "method_listed_if_supported self"
    and sw: "switch env new_name self = (r, self')"
    and ne: "\<forall>info. map_of (available_models self) new_name = Some info \<and> support_controlnet info
               \<longrightarrow> controlnets info \<noteq> []"
  shows "method_listed_if_supported self'"
proof (cases "new_name = name self")
  case True
  with sw inv show ?thesis by (simp add: switch_def)
next
  case diff: False
  show ?thesis
  proof (cases "map_of (available_models self) new_name")
    case None
    with sw diff have "self' = self\<lparr>name := new_name\<rparr>"
      by (simp add: switch_def Let_def)
    with None show ?thesis by (simp add: method_listed_if_supported_def)
  next
    case (Some info)
    let ?s1 = "self\<lparr>name := new_name\<rparr>"
    have "controlnets info \<noteq> [] \<or> \<not> support_controlnet info"
      using ne Some by blast
    then have "\<exists>s2. switch_reset_method info ?s1 = Inr s2"
      by (cases "controlnets info") (auto simp: switch_reset_method_def)
    then obtain s2 where s2: "switch_reset_method info ?s1 = Inr s2" ..
    have s2_frame: "name s2 = new_name" "available_models s2 = available_models self"
      using s2 by (auto simp: switch_reset_method_def split: if_splits list.splits)
    have s2_ok: "method_listed_if_supported s2"
      using s2 Some
      by (auto simp: switch_reset_method_def method_listed_if_supported_def not_in_def
          split: if_splits list.splits option.splits)
    obtain r3 s3 where s3: "switch_try env new_name s2 = (r3, s3)"
      by (cases "switch_try env new_name s2")
    note f3 = switch_try_frame [OF s3]
    show ?thesis
    proof (cases r3)
      case (Inr u)
      with sw diff Some s2 s3 have "self' = s3" by (simp add: switch_def Let_def)
      with f3 s2_ok show ?thesis
        using method_listed_if_supported_cong [of s3 s2] by simp
    next
      case (Inl e)
      with sw diff Some s2 s3
      have "switch_rollback env (name self) (controlnet_method self) e s3 = (r, self')"
        by (simp add: switch_def Let_def)
      from switch_rollback_frame [OF this] f3 s2_frame inv show ?thesis
        using method_listed_if_supported_cong [of self' self] by simp
    qed
  qed
qed

lemma scm_keeps_invariant:
  assumes inv: "method_listed_if_supported s"
    and req: "request_method_listed (req_controlnet_method c) s"
    and st: "switch_controlnet_method env c s = (r, s')"
  shows "method_listed_if_supported s'"
proof -
  have "controlnet_method s' = controlnet_method s
      \<or> controlnet_method s' = req_controlnet_method c"
    using st
    by (auto simp: switch_controlnet_method_def Let_def emit_def
        split: option.splits if_splits prod.splits sum.splits dest!: init_model_frame)
  moreover have "name s' = name s" "available_models s' = available_models s"
    using scm_frame [OF st] by simp_all
  ultimately show ?thesis
    using inv req
    by (auto simp: method_listed_if_supported_def request_method_listed_def
        split: option.splits if_splits)
qed

lemma call_keeps_invariant:
  assumes inv: "method_listed_if_supported s"
    and req: "request_method_listed (req_controlnet_method c) s"
    and st: "call env i m c s = (r, s')"
  shows "method_listed_if_supported s'"
proof -
  obtain r1 s1 where 1: "switch_controlnet_method env c s = (r1, s1)"
    by (cases "switch_controlnet_method env c s")
  note i1 = scm_keeps_invariant [OF inv req 1]
  obtain r2 s2 where 2: "enable_disable_freeu c s1 = (r2, s2)"
    by (cases "enable_disable_freeu c s1")
  have i2: "method_listed_if_supported s2"
    using freeu_frame [OF 2] i1 method_listed_if_supported_cong [of s2 s1] by simp
  obtain r3 s3 where 3: "enable_disable_lcm_lora env c s2 = (r3, s3)"
    by (cases "enable_disable_lcm_lora env c s2")
  have i3: "method_listed_if_supported s3"
    using lcm_frame [OF 3] i2 method_listed_if_supported_cong [of s3 s2] by simp
  have "s' = s1 \<or> s' = s2 \<or> s' = s3 \<or> s' = emit (ModelCall i m c) s3"
    using st 1 2 3 by (auto simp: call_def split: sum.splits option.splits)
  moreover have "method_listed_if_supported (emit (ModelCall i m c) s3)"
    using i3 method_listed_if_supported_cong [of "emit (ModelCall i m c) s3" s3]
    by (simp add: emit_def)
  ultimately show ?thesis using i1 i2 i3 by blast
qed

lemma init_Inr:
  assumes "ModelManager_init env n d kw = Inr m"
  shows "name m = n
       \<and> available_models m
           = fold (\<lambda>it d. AList.update (info_name it) it d) (download_scan_models env) []
       \<and> (kw_controlnet_method kw \<noteq> None \<longrightarrow> controlnet_method m = kw_controlnet_method kw)
       \<and> (kw_controlnet_method kw = None \<longrightarrow>
            (case map_of (available_models m) n of
               None \<Rightarrow> controlnet_method m = None
             | Some info \<Rightarrow>
                 if support_controlnet info
                 then \<exists>c cs. controlnets info = c # cs \<and> controlnet_method m = Some c
                 else controlnet_method m = None))"
  using assms unfolding ModelManager_init_def scan_models_def Let_def
  by (auto split: sum.splits prod.splits option.splits if_splits list.splits
      dest!: init_model_frame)

lemma init_establishes_invariant:
  assumes "ModelManager_init env n d kw = Inr m"
    and "request_method_listed (kw_controlnet_method kw) m"
  shows "method_listed_if_supported m"
  using init_Inr [OF assms(1)] assms(2)
  by (cases "kw_controlnet_method kw")
     (auto simp: method_listed_if_supported_def request_method_listed_def
      split: option.splits if_splits)

text \<open>
  C3 as the specification states it (the method, if set, is in the current descriptor's
  list) fails in three ways: after a construction that pins \<open>openpose\<close> for \<open>sdxl\<close>;
  after the switch from \<open>sdxl\<close> with method \<open>canny\<close> to \<open>lama\<close>, which lists no
  method and keeps \<open>canny\<close>; and after a \<open>__call__\<close> whose request names \<open>openpose\<close>.
\<close>

theorem method_invariant_counterexample:
  "ModelManager_init env0 ''sdxl'' ''cuda'' kwargs_pinned = Inr mgr_sdxl_pinned
   \<and> \<not> method_listed mgr_sdxl_pinned
   \<and> method_listed mgr_sdxl
   \<and> fst (switch env0 ''lama'' mgr_sdxl) = Inr ()
   \<and> \<not> method_listed (snd (switch env0 ''lama'' mgr_sdxl))
   \<and> fst (call env0 [1] [255] request_openpose mgr_sdxl) = Inr [1]
   \<and> \<not> method_listed (snd (call env0 [1] [255] request_openpose mgr_sdxl))"
proof -
  have "\<not> method_listed mgr_sdxl_pinned" "method_listed mgr_sdxl"
    by (simp_all add: method_listed_def example_defs)
  moreover have "fst (switch env0 ''lama'' mgr_sdxl) = Inr ()"
    "\<not> method_listed (snd (switch env0 ''lama'' mgr_sdxl))"
    by (simp_all add: method_listed_def switch_defs example_defs)
  moreover have "fst (call env0 [1] [255] request_openpose mgr_sdxl) = Inr [1]"
    "\<not> method_listed (snd (call env0 [1] [255] request_openpose mgr_sdxl))"
    by (simp_all add: method_listed_def step_defs example_defs)
  ultimately show ?thesis
    using mgr_sdxl_pinned_constructed by simp
qed

text \<open>
  C3, as amended. The invariant asked of descriptors with \<open>support_controlnet\<close> only: if the
  current descriptor supports ControlNet and the method is set, the method is one the
  descriptor lists. It holds after a construction whose options pin no method or a listed
  one; \<open>switch\<close> preserves it when the target, if it supports ControlNet, lists at least one
  method; \<open>__call__\<close> preserves it when the method of the request, if given, is listed.
\<close>

theorem method_invariant_amended:
  "(ModelManager_init env n d kw = Inr m
      \<and> request_method_listed (kw_controlnet_method kw) m
     \<longrightarrow> method_listed_if_supported m)
   \<and> (method_listed_if_supported self
      \<and> (\<forall>info. map_of (available_models self) new_name = Some info \<and> support_controlnet info
               \<longrightarrow> controlnets info \<noteq> [])
      \<and> switch env new_name self = (r, self')
     \<longrightarrow> method_listed_if_supported self')
   \<and> (method_listed_if_supported s
      \<and> request_method_listed (req_controlnet_method config) s
      \<and> call env image' mask' config s = (r', s')
     \<longrightarrow> method_listed_if_supported s')"
  using init_establishes_invariant switch_keeps_invariant call_keeps_invariant
  by blast

theorem method_invariant_amended_witness:
  "(ModelManager_init env0 ''sdxl'' ''cuda'' (kwargs0\<lparr>kw_enable_controlnet := Some True\<rparr>)
      = Inr mgr_sdxl
    \<and> request_method_listed (kw_controlnet_method (kwargs0\<lparr>kw_enable_controlnet := Some True\<rparr>))
        mgr_sdxl)
   \<and> method_listed_if_supported mgr_sdxl
   \<and> map_of (available_models mgr_sdxl) ''lama'' = Some lama \<and> \<not> support_controlnet lama
   \<and> switch env0 ''lama'' mgr_sdxl = (Inr (), snd (switch env0 ''lama'' mgr_sdxl))
   \<and> method_listed_if_supported (snd (switch env0 ''lama'' mgr_sdxl))
   \<and> request_method_listed (req_controlnet_method request_depth) mgr_sdxl
   \<and> call env0 [300, 2] [0, 255] request_depth mgr_sdxl
       = (Inr [44, 2], snd (call env0 [300, 2] [0, 255] request_depth mgr_sdxl))
   \<and> method_listed_if_supported (snd (call env0 [300, 2] [0, 255] request_depth mgr_sdxl))"
proof -
  let ?kw = "kwargs0\<lparr>kw_enable_controlnet := Some True\<rparr>"
  have a1: "ModelManager_init env0 ''sdxl'' ''cuda'' ?kw = Inr mgr_sdxl"
    by (rule mgr_sdxl_constructed)
  have a2: "request_method_listed (kw_controlnet_method ?kw) mgr_sdxl"
    by (simp add: request_method_listed_def example_defs)
  have b2: "\<forall>info. map_of (available_models mgr_sdxl) ''lama'' = Some info \<and> support_controlnet info
          \<longrightarrow> controlnets info \<noteq> []"
    by (simp add: example_defs)
  have b3: "switch env0 ''lama'' mgr_sdxl = (Inr (), snd (switch env0 ''lama'' mgr_sdxl))"
    by (simp add: switch_defs example_defs)
  have c2: "request_method_listed (req_controlnet_method request_depth) mgr_sdxl"
    by (simp add: request_method_listed_def example_defs)
  have c3: "call env0 [300, 2] [0, 255] request_depth mgr_sdxl
       = (Inr [44, 2], snd (call env0 [300, 2] [0, 255] request_depth mgr_sdxl))"
    by (simp add: step_defs example_defs)
  have a: "method_listed_if_supported mgr_sdxl"
    using method_invariant_amended [where env = env0 and n = "''sdxl''" and d = "''cuda''"
        and kw = ?kw and m = mgr_sdxl] a1 a2
    by blast
  have b: "method_listed_if_supported (snd (switch env0 ''lama'' mgr_sdxl))"
    using method_invariant_amended [where env = env0 and self = mgr_sdxl
        and new_name = "''lama''" and r = "Inr ()"
        and self' = "snd (switch env0 ''lama'' mgr_sdxl)"] a b2 b3
    by blast
  have c: "method_listed_if_supported (snd (call env0 [300, 2] [0, 255] request_depth mgr_sdxl))"
    using method_invariant_amended [where env = env0 and s = mgr_sdxl
        and config = request_depth and image' = "[300, 2]" and mask' = "[0, 255]"
        and r' = "Inr [44, 2]"
        and s' = "snd (call env0 [300, 2] [0, 255] request_depth mgr_sdxl)"] a c2 c3
    by blast
  have b1: "map_of (available_models mgr_sdxl) ''lama'' = Some lama \<and> \<not> support_controlnet lama"
    by (simp add: example_defs)
  show ?thesis
    using a1 a2 a b1 b3 b c2 c3 c by simp
qed

section \<open>The adapter\<close>













end
